theory Spec2Isabelle
  imports Complex_Main "HOL-Library.AList"
begin

text \<open>
  A shallow embedding of the revenue services of the repository:
  \<^verbatim>\<open>backend/app/services/reservations.py\<close> (the two aggregation functions) and
  \<^verbatim>\<open>backend/app/services/cache.py\<close> (the cache-aside read path).

  The collaborators the two files call are modelled as data: the database pool and its
  tables as a record, the Redis server as a finite map with expiry instants, and the
  standard library's \<^verbatim>\<open>json\<close>, \<^verbatim>\<open>Decimal\<close> and \<^verbatim>\<open>datetime\<close> as functions written
  after CPython's own pure-Python sources. Exceptions are values of a sum type, and
  every \<^verbatim>\<open>try\<close>/\<^verbatim>\<open>except\<close> of the source is a case distinction on such a value.
  The \<^verbatim>\<open>print\<close> calls of the source have no effect on any result and are left out.
\<close>

section \<open>Python values, exceptions\<close>

text \<open>
  The dictionaries of the source hold strings and integers only. A dictionary is an
  association list in insertion order (the order Python keeps) with distinct keys.
  A Python \<^verbatim>\<open>str\<close> is a \<^typ>\<open>string\<close>: the model covers the code points 0 to 255.
\<close>

datatype pyval = PyStr string | PyInt int

type_synonym pydict = "(string \<times> pyval) list"

datatype pyexc =
    PoolInitError
  | PoolNotAvailable
  | SessionError
  | QueryError
  | ValueError
  | RedisError
  | JSONDecodeError

section \<open>Decimal numbers\<close>

text \<open>
  A finite Python \<^verbatim>\<open>Decimal\<close>: sign, coefficient and exponent, the value being
  \<open>(-1)^sign * coefficient * 10^exponent\<close>. The coefficient has no leading zeros, so a
  natural number holds it.
\<close>

record decimal =
  d_sign :: bool
  d_int :: nat
  d_exp :: int

text \<open>\<^verbatim>\<open>Decimal('0')\<close>.\<close>

definition Decimal_0 :: decimal where
  "Decimal_0 = \<lparr>d_sign = False, d_int = 0, d_exp = 0\<rparr>"

text \<open>Truth value of a \<^verbatim>\<open>Decimal\<close>: false exactly for zero, whatever its exponent.\<close>

definition decimal_bool :: "decimal \<Rightarrow> bool" where
  "decimal_bool d = (d_int d \<noteq> 0)"

text \<open>The number a \<^verbatim>\<open>Decimal\<close> denotes.\<close>

definition decimal_value :: "decimal \<Rightarrow> rat" where
  "decimal_value d =
     (if d_sign d then - 1 else 1) * of_nat (d_int d)
       * (if 0 \<le> d_exp d then 10 ^ nat (d_exp d) else 1 / 10 ^ nat (- d_exp d))"

definition digit_chr :: "nat \<Rightarrow> char" where
  "digit_chr n = ''0123456789'' ! n"

text \<open>Decimal digits of a natural number, as \<^verbatim>\<open>str\<close> and \<^verbatim>\<open>repr\<close> print them.\<close>

function str_nat :: "nat \<Rightarrow> string" where
  "str_nat n = (if n < 10 then [digit_chr n] else str_nat (n div 10) @ [digit_chr (n mod 10)])"
  by pat_completeness auto
termination
  by (relation "measure id") auto

definition str_int :: "int \<Rightarrow> string" where
  "str_int i = (if i < 0 then CHR ''-'' # str_nat (nat (- i)) else str_nat (nat i))"

text \<open>
  \<^verbatim>\<open>Decimal.__str__\<close> for finite numbers: plain notation when the exponent is at most
  zero and there are fewer than six zeros after the point, scientific notation otherwise.
\<close>

definition decimal_str :: "decimal \<Rightarrow> string" where
  "decimal_str d =
     (let sign = (if d_sign d then ''-'' else '''');
          digits = str_nat (d_int d);
          leftdigits = d_exp d + int (length digits);
          dotplace = (if d_exp d \<le> 0 \<and> leftdigits > - 6 then leftdigits else 1);
          intpart =
            (if dotplace \<le> 0 then ''0''
             else if dotplace \<ge> int (length digits)
               then digits @ replicate (nat (dotplace - int (length digits))) (CHR ''0'')
             else take (nat dotplace) digits);
          fracpart =
            (if dotplace \<le> 0 then ''.'' @ replicate (nat (- dotplace)) (CHR ''0'') @ digits
             else if dotplace \<ge> int (length digits) then ''''
             else ''.'' @ drop (nat dotplace) digits);
          exp =
            (if leftdigits = dotplace then ''''
             else ''E'' @ (if leftdigits - dotplace < 0 then ''-'' else ''+'')
                  @ str_nat (nat \<bar>leftdigits - dotplace\<bar>))
      in sign @ intpart @ fracpart @ exp)"

section \<open>Calendar instants\<close>

text \<open>
  A naive \<^verbatim>\<open>datetime\<close>. The constructor checks its fields the way
  \<^verbatim>\<open>_check_date_fields\<close> does and raises \<^verbatim>\<open>ValueError\<close> outside the years 1 to 9999,
  the months 1 to 12 and the days of the month.
\<close>

record datetime =
  dt_year :: int
  dt_month :: int
  dt_day :: int
  dt_hour :: int
  dt_minute :: int
  dt_second :: int
  dt_microsecond :: int

definition is_leap :: "int \<Rightarrow> bool" where
  "is_leap y = (y mod 4 = 0 \<and> (y mod 100 \<noteq> 0 \<or> y mod 400 = 0))"

definition days_in_month :: "int \<Rightarrow> int \<Rightarrow> int" where
  "days_in_month y m =
     (if m = 2 \<and> is_leap y then 29
      else [31, 28, 31, 30, 31, 30, 31, 31, 30, 31, 30, 31] ! nat (m - 1))"

text \<open>The first moment of a day: the time of day of \<^verbatim>\<open>datetime(y, m, d)\<close> defaults to zero.\<close>

definition midnight :: "int \<Rightarrow> int \<Rightarrow> int \<Rightarrow> datetime" where
  "midnight y m d =
     \<lparr>dt_year = y, dt_month = m, dt_day = d, dt_hour = 0, dt_minute = 0,
      dt_second = 0, dt_microsecond = 0\<rparr>"

text \<open>\<^verbatim>\<open>datetime(year, month, day)\<close>.\<close>

definition datetime_ymd :: "int \<Rightarrow> int \<Rightarrow> int \<Rightarrow> pyexc + datetime" where
  "datetime_ymd y m d =
     (if \<not> (1 \<le> y \<and> y \<le> 9999) then Inl ValueError
      else if \<not> (1 \<le> m \<and> m \<le> 12) then Inl ValueError
      else if \<not> (1 \<le> d \<and> d \<le> days_in_month y m) then Inl ValueError
      else Inr (midnight y m d))"

definition days_before_year :: "int \<Rightarrow> int" where
  "days_before_year y = (y - 1) * 365 + (y - 1) div 4 - (y - 1) div 100 + (y - 1) div 400"

definition days_before_month :: "int \<Rightarrow> int \<Rightarrow> int" where
  "days_before_month y m =
     [0, 31, 59, 90, 120, 151, 181, 212, 243, 273, 304, 334] ! nat (m - 1)
       + (if m > 2 \<and> is_leap y then 1 else 0)"

text \<open>The proleptic Gregorian ordinal of a date (\<^verbatim>\<open>_ymd2ord\<close>): 1 for 0001-01-01.\<close>

definition ymd2ord :: "int \<Rightarrow> int \<Rightarrow> int \<Rightarrow> int" where
  "ymd2ord y m d = days_before_year y + days_before_month y m + d"

text \<open>
  A timestamp without time zone, as the database compares it: microseconds counted
  from 0001-01-01 00:00. A naive \<^verbatim>\<open>datetime\<close> bound as a query parameter becomes such
  a timestamp.
\<close>

type_synonym timestamp = int

definition datetime_micros :: "datetime \<Rightarrow> timestamp" where
  "datetime_micros t =
     (((ymd2ord (dt_year t) (dt_month t) (dt_day t) - 1) * 86400
        + dt_hour t * 3600 + dt_minute t * 60 + dt_second t) * 1000000) + dt_microsecond t"

text \<open>
  Lines 30 to 34 of \<^verbatim>\<open>calculate_monthly_revenue\<close>: the boundaries of the month.
  \<^verbatim>\<open>
  start_date = datetime(year, month, 1)
  if month < 12:
      end_date = datetime(year, month + 1, 1)
  else:
      end_date = datetime(year + 1, 1, 1)
  \<close>
\<close>

definition month_bounds :: "int \<Rightarrow> int \<Rightarrow> pyexc + (datetime \<times> datetime)" where
  "month_bounds yr mo =
     (case datetime_ymd yr mo 1 of
        Inl e \<Rightarrow> Inl e
      | Inr start_date \<Rightarrow>
          (case (if mo < 12 then datetime_ymd yr (mo + 1) 1 else datetime_ymd (yr + 1) 1 1) of
             Inl e \<Rightarrow> Inl e
           | Inr end_date \<Rightarrow> Inr (start_date, end_date)))"

section \<open>The database\<close>

text \<open>
  An SQL \<^verbatim>\<open>numeric\<close>: an unscaled integer and a scale, the value being
  \<open>unscaled / 10^scale\<close>. Addition keeps the larger scale, as the database does.
\<close>

record numeric =
  n_unscaled :: int
  n_scale :: nat

definition numeric_add :: "numeric \<Rightarrow> numeric \<Rightarrow> numeric" where
  "numeric_add a b =
     (let s = max (n_scale a) (n_scale b)
      in \<lparr>n_unscaled = n_unscaled a * 10 ^ (s - n_scale a) + n_unscaled b * 10 ^ (s - n_scale b),
          n_scale = s\<rparr>)"

text \<open>The number a \<^verbatim>\<open>numeric\<close> denotes.\<close>

definition numeric_value :: "numeric \<Rightarrow> rat" where
  "numeric_value n = of_int (n_unscaled n) / 10 ^ n_scale n"

text \<open>\<^verbatim>\<open>SUM\<close> over a column: \<^verbatim>\<open>NULL\<close> when no row is summed.\<close>

fun sql_sum :: "numeric list \<Rightarrow> numeric option" where
  "sql_sum [] = None"
| "sql_sum (x # xs) = Some (foldl numeric_add x xs)"

text \<open>The driver hands a \<^verbatim>\<open>numeric\<close> to Python as a \<^verbatim>\<open>Decimal\<close> of the same digits and scale.\<close>

definition to_decimal :: "numeric \<Rightarrow> decimal" where
  "to_decimal n =
     \<lparr>d_sign = (n_unscaled n < 0), d_int = nat \<bar>n_unscaled n\<bar>, d_exp = - int (n_scale n)\<rparr>"

text \<open>
  Modelled from the spec: the schema of the two tables the queries read, which is not
  part of the sources. \<^verbatim>\<open>check_in_date\<close> is a timestamp that is naive at rest and
  means UTC, \<^verbatim>\<open>total_amount\<close> a fixed-point number that is never \<^verbatim>\<open>NULL\<close>,
  \<^verbatim>\<open>timezone\<close> the name of a time zone.
\<close>

record reservation =
  r_property_id :: string
  r_tenant_id :: string
  check_in_date :: timestamp
  total_amount :: numeric

record property =
  p_id :: string
  p_tenant_id :: string
  p_timezone :: string

text \<open>
  What can go wrong between the service and the database, in the order the source meets
  it: \<^verbatim>\<open>initialize()\<close> raises, \<^verbatim>\<open>session_factory\<close> is not set, \<^verbatim>\<open>get_session()\<close>
  raises on entry, \<^verbatim>\<open>execute\<close> raises (for whatever reason the server rejects the
  query), or leaving the session raises.
\<close>

datatype pool_status =
    InitializeFails
  | NoSessionFactory
  | GetSessionFails
  | ExecuteFails
  | SessionCloseFails
  | Operational

text \<open>
  \<open>zone_offset\<close> is the server's time zone table: the offset from UTC, in microseconds,
  of a named zone at a UTC instant.
\<close>

record database =
  pool :: pool_status
  reservations :: "reservation list"
  properties :: "property list"
  zone_offset :: "string \<Rightarrow> int \<Rightarrow> int"

text \<open>
  \<^verbatim>\<open>ts AT TIME ZONE 'UTC'\<close> reads a timestamp without time zone as a UTC instant;
  \<^verbatim>\<open>instant AT TIME ZONE zone\<close> gives the wall-clock timestamp of that instant in the zone.
\<close>

definition timestamp_at_utc :: "timestamp \<Rightarrow> int" where
  "timestamp_at_utc ts = ts"

definition instant_at_zone :: "database \<Rightarrow> string \<Rightarrow> int \<Rightarrow> timestamp" where
  "instant_at_zone db zone instant = instant + zone_offset db zone instant"

text \<open>\<^verbatim>\<open>r.check_in_date AT TIME ZONE 'UTC' AT TIME ZONE p.timezone\<close>.\<close>

definition local_check_in :: "database \<Rightarrow> reservation \<Rightarrow> property \<Rightarrow> timestamp" where
  "local_check_in db r p = instant_at_zone db (p_timezone p) (timestamp_at_utc (check_in_date r))"

text \<open>
  \<^verbatim>\<open>FROM reservations r INNER JOIN properties p
       ON r.property_id = p.id AND r.tenant_id = p.tenant_id
  WHERE r.property_id = :property_id AND r.tenant_id = :tenant_id\<close>,
  shared by both queries.
\<close>

definition joined_rows :: "database \<Rightarrow> string \<Rightarrow> string \<Rightarrow> (reservation \<times> property) list" where
  "joined_rows db property_id tenant_id =
     [(r, p). r \<leftarrow> reservations db, p \<leftarrow> properties db,
        r_property_id r = p_id p \<and> r_tenant_id r = p_tenant_id p,
        r_property_id r = property_id \<and> r_tenant_id r = tenant_id]"

text \<open>
  The rows of the monthly query: the join, filtered by
  \<^verbatim>\<open>local >= :start_date AND local < :end_date\<close>, the two parameters being the naive
  boundaries as timestamps.
\<close>

definition monthly_rows ::
  "database \<Rightarrow> string \<Rightarrow> string \<Rightarrow> timestamp \<Rightarrow> timestamp \<Rightarrow> (reservation \<times> property) list" where
  "monthly_rows db property_id tenant_id start_date end_date =
     [(r, p). (r, p) \<leftarrow> joined_rows db property_id tenant_id,
        local_check_in db r p \<ge> start_date \<and> local_check_in db r p < end_date]"

text \<open>The one row of the monthly query: \<^verbatim>\<open>SELECT SUM(r.total_amount) as total\<close>.\<close>

definition monthly_query ::
  "database \<Rightarrow> string \<Rightarrow> string \<Rightarrow> timestamp \<Rightarrow> timestamp \<Rightarrow> numeric option" where
  "monthly_query db property_id tenant_id start_date end_date =
     sql_sum (map (\<lambda>(r, p). total_amount r) (monthly_rows db property_id tenant_id start_date end_date))"

text \<open>
  The result of the total query, \<^verbatim>\<open>GROUP BY r.property_id\<close>: no row when nothing
  matches, one row otherwise.
\<close>

record total_row =
  total_revenue :: numeric
  reservation_count :: int

definition total_query :: "database \<Rightarrow> string \<Rightarrow> string \<Rightarrow> total_row option" where
  "total_query db property_id tenant_id =
     (case sql_sum (map (\<lambda>(r, p). total_amount r) (joined_rows db property_id tenant_id)) of
        None \<Rightarrow> None
      | Some s \<Rightarrow>
          Some \<lparr>total_revenue = s,
                reservation_count = int (length (joined_rows db property_id tenant_id))\<rparr>)"

section \<open>services/reservations.py\<close>

text \<open>
  The body of the \<^verbatim>\<open>try\<close> block of \<^verbatim>\<open>calculate_monthly_revenue\<close>. \<^verbatim>\<open>Decimal(str(x))\<close>
  of a \<^verbatim>\<open>Decimal\<close> \<open>x\<close> is \<open>x\<close> again: sign, digits and exponent survive the string.
\<close>

definition monthly_revenue_try ::
  "database \<Rightarrow> string \<Rightarrow> int \<Rightarrow> int \<Rightarrow> string \<Rightarrow> pyexc + decimal" where
  "monthly_revenue_try db property_id mo yr tenant_id =
     (if pool db = InitializeFails then Inl PoolInitError
      else if pool db = NoSessionFactory then Inl PoolNotAvailable
      else if pool db = GetSessionFails then Inl SessionError
      else
        (case month_bounds yr mo of
           Inl e \<Rightarrow> Inl e
         | Inr (start_date, end_date) \<Rightarrow>
             if pool db = ExecuteFails then Inl QueryError
             else
               (let row_total = monthly_query db property_id tenant_id
                              (datetime_micros start_date) (datetime_micros end_date);
                    returned =
                      (case row_total of
                         None \<Rightarrow> Decimal_0
                       | Some t \<Rightarrow> if decimal_bool (to_decimal t) then to_decimal t else Decimal_0)
                in if pool db = SessionCloseFails then Inl SessionError else Inr returned)))"

text \<open>\<^verbatim>\<open>except Exception as e: ... return Decimal('0')\<close>.\<close>

definition calculate_monthly_revenue ::
  "database \<Rightarrow> string \<Rightarrow> int \<Rightarrow> int \<Rightarrow> string \<Rightarrow> decimal" where
  "calculate_monthly_revenue db property_id mo yr tenant_id =
     (case monthly_revenue_try db property_id mo yr tenant_id of
        Inr amount \<Rightarrow> amount
      | Inl e \<Rightarrow> Decimal_0)"

text \<open>The dictionary both branches of \<^verbatim>\<open>calculate_total_revenue\<close> build.\<close>

definition revenue_summary :: "string \<Rightarrow> string \<Rightarrow> string \<Rightarrow> string \<Rightarrow> int \<Rightarrow> pydict" where
  "revenue_summary property_id tenant_id total_str currency n =
     [(''property_id'', PyStr property_id),
      (''tenant_id'', PyStr tenant_id),
      (''total'', PyStr total_str),
      (''currency'', PyStr currency),
      (''count'', PyInt n)]"

definition total_revenue_try :: "database \<Rightarrow> string \<Rightarrow> string \<Rightarrow> pyexc + pydict" where
  "total_revenue_try db property_id tenant_id =
     (if pool db = InitializeFails then Inl PoolInitError
      else if pool db = NoSessionFactory then Inl PoolNotAvailable
      else if pool db = GetSessionFails then Inl SessionError
      else if pool db = ExecuteFails then Inl QueryError
      else
        (let returned =
           (case total_query db property_id tenant_id of
              Some row \<Rightarrow>
                revenue_summary property_id tenant_id
                  (decimal_str (to_decimal (total_revenue row))) ''USD'' (reservation_count row)
            | None \<Rightarrow> revenue_summary property_id tenant_id ''0.00'' ''USD'' 0)
         in if pool db = SessionCloseFails then Inl SessionError else Inr returned))"

text \<open>The placeholder table of the \<^verbatim>\<open>except\<close> branch and its default.\<close>

definition mock_data :: "(string \<times> string \<times> int) list" where
  "mock_data =
     [(''prop-001'', (''1000.00'', 3)),
      (''prop-002'', (''4975.50'', 4)),
      (''prop-003'', (''6100.50'', 2)),
      (''prop-004'', (''1776.50'', 4)),
      (''prop-005'', (''3256.00'', 3))]"

definition mock_property_data :: "string \<Rightarrow> string \<times> int" where
  "mock_property_data property_id =
     (case map_of mock_data property_id of Some entry \<Rightarrow> entry | None \<Rightarrow> (''0.00'', 0))"

definition calculate_total_revenue :: "database \<Rightarrow> string \<Rightarrow> string \<Rightarrow> pydict" where
  "calculate_total_revenue db property_id tenant_id =
     (case total_revenue_try db property_id tenant_id of
        Inr summary \<Rightarrow> summary
      | Inl e \<Rightarrow>
          revenue_summary property_id tenant_id
            (fst (mock_property_data property_id)) ''USD'' (snd (mock_property_data property_id)))"

section \<open>JSON text\<close>

text \<open>
  \<^verbatim>\<open>json.dumps\<close> with its default arguments, on the dictionaries of the source: items
  in insertion order, separated by \<open>", "\<close>, key and value by \<open>": "\<close>; strings escaped as
  \<^verbatim>\<open>py_encode_basestring_ascii\<close> does (every character outside the printable ASCII range
  becomes an escape); integers in decimal.
\<close>

definition quote_chr :: char where "quote_chr = CHR 0x22"
definition backslash_chr :: char where "backslash_chr = CHR 0x5C"

definition hex_digit :: "nat \<Rightarrow> char" where
  "hex_digit n = ''0123456789abcdef'' ! n"

definition escape_char :: "char \<Rightarrow> string" where
  "escape_char c =
     (if c = backslash_chr then [backslash_chr, backslash_chr]
      else if c = quote_chr then [backslash_chr, quote_chr]
      else if c = CHR 0x08 then [backslash_chr, CHR ''b'']
      else if c = CHR 0x0C then [backslash_chr, CHR ''f'']
      else if c = CHR 0x0A then [backslash_chr, CHR ''n'']
      else if c = CHR 0x0D then [backslash_chr, CHR ''r'']
      else if c = CHR 0x09 then [backslash_chr, CHR ''t'']
      else if 0x20 \<le> (of_char c :: nat) \<and> (of_char c :: nat) \<le> 0x7E then [c]
      else [backslash_chr, CHR ''u'', CHR ''0'', CHR ''0'',
            hex_digit ((of_char c :: nat) div 16), hex_digit ((of_char c :: nat) mod 16)])"

definition encode_basestring_ascii :: "string \<Rightarrow> string" where
  "encode_basestring_ascii s = quote_chr # concat (map escape_char s) @ [quote_chr]"

definition dumps_value :: "pyval \<Rightarrow> string" where
  "dumps_value v = (case v of PyStr s \<Rightarrow> encode_basestring_ascii s | PyInt n \<Rightarrow> str_int n)"

definition dumps_item :: "string \<times> pyval \<Rightarrow> string" where
  "dumps_item kv = encode_basestring_ascii (fst kv) @ '': '' @ dumps_value (snd kv)"

fun join_items :: "string list \<Rightarrow> string" where
  "join_items [] = []"
| "join_items [x] = x"
| "join_items (x # y # ys) = x @ '', '' @ join_items (y # ys)"

definition json_dumps :: "pydict \<Rightarrow> string" where
  "json_dumps d = ''{'' @ join_items (map dumps_item d) @ ''}''"

text \<open>
  \<^verbatim>\<open>json.loads\<close>, on the part of JSON that \<open>json_dumps\<close> writes: one object whose
  values are strings or integers. \<open>None\<close> stands for \<^verbatim>\<open>JSONDecodeError\<close> and also for
  any JSON text outside that part (nested values, arrays, floats, \<^verbatim>\<open>true\<close>,
  \<^verbatim>\<open>false\<close>, \<^verbatim>\<open>null\<close>, escapes above code point 255), which Python would decode.
  The functions follow \<^verbatim>\<open>py_scanstring\<close>, \<^verbatim>\<open>JSONObject\<close> and the number pattern of
  the scanner; every function returns the text that is left.
\<close>

definition is_ws :: "char \<Rightarrow> bool" where
  "is_ws c = (c = CHR '' '' \<or> c = CHR 0x09 \<or> c = CHR 0x0A \<or> c = CHR 0x0D)"

definition skip_ws :: "string \<Rightarrow> string" where
  "skip_ws s = dropWhile is_ws s"

definition hex_val :: "char \<Rightarrow> nat option" where
  "hex_val c =
     (let n = (of_char c :: nat) in
      if 48 \<le> n \<and> n \<le> 57 then Some (n - 48)
      else if 97 \<le> n \<and> n \<le> 102 then Some (n - 87)
      else if 65 \<le> n \<and> n \<le> 70 then Some (n - 55)
      else None)"

definition decode_uXXXX :: "char \<Rightarrow> char \<Rightarrow> char \<Rightarrow> char \<Rightarrow> nat option" where
  "decode_uXXXX a b c d =
     (case (hex_val a, hex_val b, hex_val c, hex_val d) of
        (Some x, Some y, Some z, Some w) \<Rightarrow> Some (((x * 16 + y) * 16 + z) * 16 + w)
      | _ \<Rightarrow> None)"

definition unescape :: "char \<Rightarrow> char option" where
  "unescape e =
     (if e = quote_chr then Some quote_chr
      else if e = backslash_chr then Some backslash_chr
      else if e = CHR ''/'' then Some (CHR ''/'')
      else if e = CHR ''b'' then Some (CHR 0x08)
      else if e = CHR ''f'' then Some (CHR 0x0C)
      else if e = CHR ''n'' then Some (CHR 0x0A)
      else if e = CHR ''r'' then Some (CHR 0x0D)
      else if e = CHR ''t'' then Some (CHR 0x09)
      else None)"

definition chunk :: "char \<Rightarrow> (string \<times> string) option \<Rightarrow> (string \<times> string) option" where
  "chunk c res = (case res of None \<Rightarrow> None | Some (s, r) \<Rightarrow> Some (c # s, r))"

fun scanstring :: "string \<Rightarrow> (string \<times> string) option" where
  "scanstring [] = None"
| "scanstring (c # cs) =
     (if c = quote_chr then Some ([], cs)
      else if c = backslash_chr then
        (case cs of
           [] \<Rightarrow> None
         | e # r \<Rightarrow>
             if e = CHR ''u'' then
               (case r of
                  h1 # h2 # h3 # h4 # r' \<Rightarrow>
                    (case decode_uXXXX h1 h2 h3 h4 of
                       None \<Rightarrow> None
                     | Some n \<Rightarrow> if n < 256 then chunk (char_of n) (scanstring r') else None)
                | _ \<Rightarrow> None)
             else
               (case unescape e of
                  None \<Rightarrow> None
                | Some ch \<Rightarrow> chunk ch (scanstring r)))
      else if (of_char c :: nat) < 0x20 then None
      else chunk c (scanstring cs))"

definition is_digit :: "char \<Rightarrow> bool" where
  "is_digit c = (48 \<le> (of_char c :: nat) \<and> (of_char c :: nat) \<le> 57)"

definition digits_val :: "string \<Rightarrow> nat" where
  "digits_val ds = foldl (\<lambda>a c. 10 * a + ((of_char c :: nat) - 48)) 0 ds"

text \<open>
  An integer, by the scanner's number pattern: an optional minus sign, then \<open>0\<close> or a
  digit from 1 to 9 followed by digits. A fraction or an exponent after it would make
  the number a float, which is outside the model, and a lone \<open>.\<close>, \<open>e\<close> or \<open>E\<close>
  there is an error at the caller: both are \<open>None\<close> here.
\<close>

definition scan_int :: "string \<Rightarrow> (int \<times> string) option" where
  "scan_int s =
     (let neg = (case s of [] \<Rightarrow> False | c # _ \<Rightarrow> c = CHR ''-'');
          t = (if neg then tl s else s);
          ds = (case t of [] \<Rightarrow> [] | c # _ \<Rightarrow> if c = CHR ''0'' then [c] else takeWhile is_digit t);
          rest = drop (length ds) t
      in if ds = [] then None
         else if (case rest of [] \<Rightarrow> False | c # _ \<Rightarrow> c = CHR ''.'' \<or> c = CHR ''e'' \<or> c = CHR ''E'')
           then None
         else Some (if neg then - int (digits_val ds) else int (digits_val ds), rest))"

text \<open>What may follow an integer in JSON text for the scanner to stop there.\<close>

definition int_delimited :: "string \<Rightarrow> bool" where
  "int_delimited r =
     (case r of [] \<Rightarrow> True
      | c # _ \<Rightarrow> \<not> is_digit c \<and> c \<noteq> CHR ''.'' \<and> c \<noteq> CHR ''e'' \<and> c \<noteq> CHR ''E'')"

definition scan_once :: "string \<Rightarrow> (pyval \<times> string) option" where
  "scan_once s =
     (case s of
        [] \<Rightarrow> None
      | c # r \<Rightarrow>
          if c = quote_chr then map_option (\<lambda>(x, r'). (PyStr x, r')) (scanstring r)
          else map_option (\<lambda>(n, r'). (PyInt n, r')) (scan_int s))"

text \<open>The scanners return a strict suffix of their input: the object parser terminates.\<close>

lemma chunk_Some: "chunk c res = Some (s, r) \<longleftrightarrow> (\<exists>s'. res = Some (s', r) \<and> s = c # s')"
  by (auto simp: chunk_def split: option.splits)

lemma scanstring_length: "scanstring s = Some (k, r) \<Longrightarrow> length r < length s"
proof (induction s arbitrary: k r rule: scanstring.induct)
  case 1
  then show ?case by simp
next
  case (2 c cs)
  then show ?case
    by (fastforce simp: chunk_Some split: if_splits list.splits option.splits)
qed

lemma skip_ws_length: "length (skip_ws s) \<le> length s"
  by (simp add: skip_ws_def length_dropWhile_le)

lemma scan_int_length: "scan_int s = Some (n, r) \<Longrightarrow> length r \<le> length s"
  by (auto simp: scan_int_def Let_def split: if_splits)

lemma scan_once_length: "scan_once s = Some (v, r) \<Longrightarrow> length r \<le> length s"
  by (auto simp: scan_once_def split: list.splits if_splits
      dest!: scanstring_length scan_int_length)

text \<open>
  The members of an object, from just after the opening quote of a key to the closing
  brace. Python appends each pair to a list and builds the dictionary at the end.
\<close>

function parse_pairs :: "string \<Rightarrow> ((string \<times> pyval) list \<times> string) option" where
  "parse_pairs s =
     (case scanstring s of
        None \<Rightarrow> None
      | Some (key, r1) \<Rightarrow>
          (case skip_ws r1 of
             [] \<Rightarrow> None
           | c1 # r2 \<Rightarrow>
               if c1 \<noteq> CHR '':'' then None
               else
                 (case scan_once (skip_ws r2) of
                    None \<Rightarrow> None
                  | Some (v, r3) \<Rightarrow>
                      (case skip_ws r3 of
                         [] \<Rightarrow> None
                       | c2 # r4 \<Rightarrow>
                           if c2 = CHR ''}'' then Some ([(key, v)], r4)
                           else if c2 \<noteq> CHR '','' then None
                           else
                             (case skip_ws r4 of
                                [] \<Rightarrow> None
                              | c3 # r5 \<Rightarrow>
                                  if c3 \<noteq> quote_chr then None
                                  else
                                    (case parse_pairs r5 of
                                       None \<Rightarrow> None
                                     | Some (ps, r6) \<Rightarrow> Some ((key, v) # ps, r6)))))))"
  by pat_completeness auto
termination
proof (relation "measure length")
  show "wf (measure length)" by simp
next
  fix s x2 key r1 c1 r2 x2a v r3 c2 r4 c3 r5
  assume "scanstring s = Some x2" "(key, r1) = x2" "skip_ws r1 = c1 # r2"
    "scan_once (skip_ws r2) = Some x2a" "(v, r3) = x2a" "skip_ws r3 = c2 # r4"
    "skip_ws r4 = c3 # r5"
  then have "length r1 < length s" "length (c1 # r2) \<le> length r1"
    "length r3 \<le> length (skip_ws r2)" "length (c2 # r4) \<le> length r3"
    "length (c3 # r5) \<le> length r4"
    using scanstring_length [of s key r1] skip_ws_length [of r1]
      scan_once_length [of "skip_ws r2" v r3] skip_ws_length [of r3] skip_ws_length [of r4]
    by auto
  with skip_ws_length [of r2] show "(r5, s) \<in> measure length" by simp
qed

text \<open>\<^verbatim>\<open>dict(pairs)\<close>: a repeated key keeps its first position and its last value.\<close>

definition dict_of_pairs :: "(string \<times> pyval) list \<Rightarrow> pydict" where
  "dict_of_pairs ps = foldl (\<lambda>d kv. AList.update (fst kv) (snd kv) d) [] ps"

definition JSONObject :: "string \<Rightarrow> (pydict \<times> string) option" where
  "JSONObject s =
     (case skip_ws s of
        [] \<Rightarrow> None
      | c # r \<Rightarrow>
          if c = CHR ''}'' then Some ([], r)
          else if c \<noteq> quote_chr then None
          else map_option (\<lambda>(ps, r'). (dict_of_pairs ps, r')) (parse_pairs r))"

definition json_loads :: "string \<Rightarrow> pydict option" where
  "json_loads s =
     (case skip_ws s of
        [] \<Rightarrow> None
      | c # r \<Rightarrow>
          if c \<noteq> CHR ''{'' then None
          else
            (case JSONObject r of
               None \<Rightarrow> None
             | Some (d, r') \<Rightarrow> if skip_ws r' = [] then Some d else None))"

section \<open>The cache server and services/cache.py\<close>

text \<open>
  The state the read path runs in: the entries of the Redis server, each with the
  instant (in seconds) at which it expires, the server's clock, whether the server answers
  reads and writes, the database, and a count of the calls of \<^verbatim>\<open>calculate_total_revenue\<close>
  made so far (kept to state how often the aggregation runs). A value is kept as the
  text that was written: \<open>json_dumps\<close> writes ASCII only, so the bytes the server
  returns are the same characters.
\<close>

record world =
  cache_entries :: "string \<rightharpoonup> string \<times> nat"
  clock :: nat
  cache_read_ok :: bool
  cache_write_ok :: bool
  data :: database
  aggregations :: nat

text \<open>\<^verbatim>\<open>GET key\<close>: the value of a key that has not expired.\<close>

definition redis_get :: "world \<Rightarrow> string \<Rightarrow> pyexc + string option" where
  "redis_get w key =
     (if \<not> cache_read_ok w then Inl RedisError
      else Inr (case cache_entries w key of
                  None \<Rightarrow> None
                | Some (v, expires) \<Rightarrow> if clock w < expires then Some v else None))"

text \<open>\<^verbatim>\<open>SETEX key ttl value\<close>: the entry expires \<open>ttl\<close> seconds after the write.\<close>

definition redis_setex :: "world \<Rightarrow> string \<Rightarrow> nat \<Rightarrow> string \<Rightarrow> pyexc + world" where
  "redis_setex w key ttl v =
     (if \<not> cache_write_ok w then Inl RedisError
      else Inr (w\<lparr>cache_entries := (cache_entries w)(key \<mapsto> (v, clock w + ttl))\<rparr>))"

text \<open>\<^verbatim>\<open>cache_key = f"revenue:{tenant_id}:{property_id}"\<close>.\<close>

definition cache_key :: "string \<Rightarrow> string \<Rightarrow> string" where
  "cache_key property_id tenant_id = ''revenue:'' @ tenant_id @ '':'' @ property_id"

text \<open>
  Lines 27 to 35 of \<^verbatim>\<open>get_revenue_summary\<close>, taken on a miss: compute, store for 300
  seconds, return. An exception of \<^verbatim>\<open>setex\<close> is not caught.
\<close>

definition compute_and_store ::
  "string \<Rightarrow> string \<Rightarrow> world \<Rightarrow> (pyexc + pydict) \<times> world" where
  "compute_and_store property_id tenant_id w =
     (let result = calculate_total_revenue (data w) property_id tenant_id;
          w' = w\<lparr>aggregations := aggregations w + 1\<rparr>
      in case redis_setex w' (cache_key property_id tenant_id) 300 (json_dumps result) of
           Inl e \<Rightarrow> (Inl e, w')
         | Inr w'' \<Rightarrow> (Inr result, w''))"

text \<open>
  \<^verbatim>\<open>get_revenue_summary\<close>. An exception of \<^verbatim>\<open>get\<close> is not caught; \<^verbatim>\<open>if cached:\<close>
  is false for a missing key and for an empty value.
\<close>

definition get_revenue_summary ::
  "string \<Rightarrow> string \<Rightarrow> world \<Rightarrow> (pyexc + pydict) \<times> world" where
  "get_revenue_summary property_id tenant_id w =
     (case redis_get w (cache_key property_id tenant_id) of
        Inl e \<Rightarrow> (Inl e, w)
      | Inr cached \<Rightarrow>
          (case cached of
             None \<Rightarrow> compute_and_store property_id tenant_id w
           | Some v \<Rightarrow>
               if v \<noteq> [] then
                 (case json_loads v of
                    None \<Rightarrow> (Inl JSONDecodeError, w)
                  | Some d \<Rightarrow> (Inr d, w))
               else compute_and_store property_id tenant_id w))"

section \<open>Example data\<close>

text \<open>
  Two reservations of property \<open>prop-002\<close> of tenant \<open>t-9\<close>, in a zone one hour ahead
  of UTC. The check-in of the first, 2024-01-31 23:00 UTC, is the first instant of February
  2024 on the property's clock; the second checks in on 2024-02-15 00:00 UTC. Their
  amounts, 4975.50 and 24.5, have different scales. The cache starts empty at second 1000.
\<close>

definition example_zone_offset :: "string \<Rightarrow> int \<Rightarrow> int" where
  "example_zone_offset zone instant = (if zone = ''Europe/Paris'' then 3600000000 else 0)"

definition example_reservation :: reservation where
  "example_reservation =
     \<lparr>r_property_id = ''prop-002'', r_tenant_id = ''t-9'', check_in_date = 63842338800000000,
      total_amount = \<lparr>n_unscaled = 497550, n_scale = 2\<rparr>\<rparr>"

definition example_reservation_late :: reservation where
  "example_reservation_late =
     \<lparr>r_property_id = ''prop-002'', r_tenant_id = ''t-9'', check_in_date = 63843552000000000,
      total_amount = \<lparr>n_unscaled = 245, n_scale = 1\<rparr>\<rparr>"

definition example_property :: property where
  "example_property = \<lparr>p_id = ''prop-002'', p_tenant_id = ''t-9'', p_timezone = ''Europe/Paris''\<rparr>"

definition example_db :: database where
  "example_db =
     \<lparr>pool = Operational, reservations = [example_reservation, example_reservation_late],
      properties = [example_property], zone_offset = example_zone_offset\<rparr>"

definition example_world :: world where
  "example_world =
     \<lparr>cache_entries = Map.empty, clock = 1000, cache_read_ok = True, cache_write_ok = True,
      data = example_db, aggregations = 0\<rparr>"

section \<open>Lemmas: the calendar\<close>

lemma datetime_ymd_first:
  "1 \<le> y \<Longrightarrow> y \<le> 9999 \<Longrightarrow> 1 \<le> m \<Longrightarrow> m \<le> 12 \<Longrightarrow>
   datetime_ymd y m 1 = Inr (midnight y m 1)"
proof -
  assume y: "1 \<le> y" "y \<le> 9999" and m: "1 \<le> m" "m \<le> 12"
  have "\<forall>k \<in> set [1..12]. 1 \<le> days_in_month y k"
    by (simp add: upto.simps days_in_month_def)
  with m have "1 \<le> days_in_month y m" by simp
  with y m show ?thesis
    by (simp add: datetime_ymd_def)
qed

lemma datetime_ymd_year_range:
  "\<not> (1 \<le> y \<and> y \<le> 9999) \<Longrightarrow> datetime_ymd y m d = Inl ValueError"
  by (simp add: datetime_ymd_def)

lemma days_before_month_mono:
  assumes "1 \<le> m" "m < 12"
  shows "days_before_month y m < days_before_month y (m + 1)"
proof -
  have "\<forall>k \<in> set [1..11]. days_before_month y k < days_before_month y (k + 1)"
    by (simp add: upto.simps days_before_month_def)
  with assms show ?thesis by simp
qed

lemma days_before_year_step: "days_before_year y + 364 \<le> days_before_year (y + 1)"
proof -
  define a4 b4 a100 b100 a400 b400
    where "a4 = (y - 1) div 4" and "b4 = y div 4"
      and "a100 = (y - 1) div 100" and "b100 = y div 100"
      and "a400 = (y - 1) div 400" and "b400 = y div 400"
  have "a4 \<le> b4" "a400 \<le> b400"
    unfolding a4_def b4_def a400_def b400_def by (rule zdiv_mono1; simp)+
  moreover have "b100 \<le> a100 + 1"
  proof -
    have "y div 100 \<le> (y - 1 + 100) div 100"
      by (rule zdiv_mono1) simp_all
    also have "\<dots> = (y - 1) div 100 + 1" by simp
    finally show ?thesis by (simp add: a100_def b100_def)
  qed
  moreover have "days_before_year y = 365 * y - 365 + a4 - a100 + a400"
    by (simp add: days_before_year_def a4_def a100_def a400_def algebra_simps)
  moreover have "days_before_year (y + 1) = 365 * y + b4 - b100 + b400"
    by (simp add: days_before_year_def b4_def b100_def b400_def algebra_simps)
  ultimately show ?thesis by linarith
qed

lemma days_before_year_next:
  "days_before_year y + days_before_month y 12 < days_before_year (y + 1) + days_before_month (y + 1) 1"
proof -
  have "days_before_month y 12 \<le> 335" "days_before_month (y + 1) 1 = 0"
    by (simp_all add: days_before_month_def)
  with days_before_year_step [of y] show ?thesis by linarith
qed

lemma first_of_month_micros:
  "datetime_micros (midnight y m 1) = (ymd2ord y m 1 - 1) * 86400000000"
  by (simp add: datetime_micros_def midnight_def)


lemma month_bounds_valid:
  assumes "1 \<le> mo" "mo \<le> 12" "1 \<le> yr" "yr \<le> 9999" "\<not> (yr = 9999 \<and> mo = 12)"
  shows "month_bounds yr mo =
     Inr (midnight yr mo 1, if mo < 12 then midnight yr (mo + 1) 1 else midnight (yr + 1) 1 1)"
proof (cases "mo < 12")
  case True
  with assms show ?thesis
    by (simp add: month_bounds_def datetime_ymd_first)
next
  case False
  with assms have "mo = 12" "yr + 1 \<le> 9999" by simp_all
  with assms show ?thesis
    by (simp add: month_bounds_def datetime_ymd_first)
qed

lemma month_bounds_invalid_year:
  assumes "\<not> (1 \<le> yr \<and> yr \<le> 9999) \<or> (yr = 9999 \<and> mo = 12)"
  shows "month_bounds yr mo = Inl ValueError"
  using assms
  by (auto simp: month_bounds_def datetime_ymd_def split: sum.splits)

lemma month_bounds_Inr:
  assumes "month_bounds yr mo = Inr (s, e)"
  shows "1 \<le> mo \<and> mo \<le> 12 \<and> 1 \<le> yr \<and> yr \<le> 9999 \<and> \<not> (yr = 9999 \<and> mo = 12)"
  using assms
  by (auto simp: month_bounds_def datetime_ymd_def split: sum.splits if_splits)

lemma month_start_before_end:
  assumes "month_bounds yr mo = Inr (s, e)"
  shows "datetime_micros s < datetime_micros e"
proof -
  from month_bounds_Inr [OF assms]
  have v: "1 \<le> mo" "mo \<le> 12" "1 \<le> yr" "yr \<le> 9999" "\<not> (yr = 9999 \<and> mo = 12)"
    by simp_all
  from month_bounds_valid [OF v] assms
  have s: "s = midnight yr mo 1"
    and e: "e = (if mo < 12 then midnight yr (mo + 1) 1 else midnight (yr + 1) 1 1)"
    by simp_all
  have "ymd2ord yr mo 1 < (if mo < 12 then ymd2ord yr (mo + 1) 1 else ymd2ord (yr + 1) 1 1)"
  proof (cases "mo < 12")
    case True
    with days_before_month_mono [of mo yr] v show ?thesis
      by (simp add: ymd2ord_def)
  next
    case False
    with v have "mo = 12" by simp
    with days_before_year_next [of yr] show ?thesis
      by (simp add: ymd2ord_def)
  qed
  then show ?thesis
    unfolding s e by (simp add: first_of_month_micros split: if_splits)
qed

lemma previous_month_end:
  assumes "month_bounds yr mo = Inr (s, e)"
    and "month_bounds (if mo = 1 then yr - 1 else yr) (if mo = 1 then 12 else mo - 1) = Inr (ps, pe)"
  shows "pe = s"
proof -
  from month_bounds_Inr [OF assms(1)]
  have v: "1 \<le> mo" "mo \<le> 12" "1 \<le> yr" "yr \<le> 9999" by simp_all
  from assms(1) have s: "datetime_ymd yr mo 1 = Inr s"
    by (auto simp: month_bounds_def split: sum.splits)
  show ?thesis
  proof (cases "mo = 1")
    case True
    with assms(2) have "datetime_ymd yr 1 1 = Inr pe"
      by (auto simp: month_bounds_def split: sum.splits)
    with s True show ?thesis by simp
  next
    case False
    with v assms(2) have "datetime_ymd yr mo 1 = Inr pe"
      by (auto simp: month_bounds_def split: sum.splits if_splits)
    with s show ?thesis by simp
  qed
qed

section \<open>Lemmas: JSON text read back\<close>

lemma hex_val_hex_digit: "n < 16 \<Longrightarrow> hex_val (hex_digit n) = Some n"
proof -
  have "\<forall>k \<in> set [0..<16]. hex_val (hex_digit k) = Some k"
    by code_simp
  then show "n < 16 \<Longrightarrow> hex_val (hex_digit n) = Some n"
    by simp
qed

lemma scanstring_escape_char: "scanstring (escape_char c @ xs) = chunk c (scanstring xs)"
proof -
  let ?n = "of_char c :: nat"
  have n: "?n < 256" by (rule nat_of_char_less_256)
  have h0: "hex_val (CHR ''0'') = Some 0" by (simp add: hex_val_def)
  have h1: "hex_val (hex_digit (?n div 16)) = Some (?n div 16)"
  proof (rule hex_val_hex_digit)
    show "?n div 16 < 16" using n by arith
  qed
  have h2: "hex_val (hex_digit (?n mod 16)) = Some (?n mod 16)"
    by (intro hex_val_hex_digit) simp
  have d: "decode_uXXXX (CHR ''0'') (CHR ''0'') (hex_digit (?n div 16)) (hex_digit (?n mod 16)) = Some ?n"
    by (simp add: decode_uXXXX_def h0 h1 h2)
  show ?thesis
    using n d by (simp add: escape_char_def quote_chr_def backslash_chr_def unescape_def)
qed

lemma scanstring_escaped:
  "scanstring (concat (map escape_char s) @ quote_chr # r) = Some (s, r)"
  by (induction s) (simp_all add: scanstring_escape_char chunk_def)

lemma scan_once_string:
  "scan_once (encode_basestring_ascii s @ r) = Some (PyStr s, r)"
  by (simp add: scan_once_def encode_basestring_ascii_def scanstring_escaped)


declare str_nat.simps [simp del]

lemma of_char_digit_chr: "d < 10 \<Longrightarrow> (of_char (digit_chr d) :: nat) = 48 + d"
proof -
  have "\<forall>k \<in> set [0..<10]. (of_char (digit_chr k) :: nat) = 48 + k"
    by code_simp
  then show "d < 10 \<Longrightarrow> (of_char (digit_chr d) :: nat) = 48 + d"
    by simp
qed

lemma is_digit_digit_chr: "d < 10 \<Longrightarrow> is_digit (digit_chr d)"
  by (simp add: is_digit_def of_char_digit_chr)

lemma str_nat_digits: "c \<in> set (str_nat n) \<Longrightarrow> is_digit c"
proof (induction n arbitrary: c rule: str_nat.induct)
  case (1 n)
  show ?case
  proof (cases "n < 10")
    case True
    with "1.prems" show ?thesis
      by (simp add: str_nat.simps [of n] is_digit_digit_chr)
  next
    case False
    with "1.prems" "1.IH" show ?thesis
      by (auto simp: str_nat.simps [of n] is_digit_digit_chr)
  qed
qed

lemma str_nat_nonempty: "str_nat n \<noteq> []"
  by (subst str_nat.simps) simp

lemma digits_val_snoc:
  "digits_val (ds @ [c]) = 10 * digits_val ds + ((of_char c :: nat) - 48)"
  by (simp add: digits_val_def)

lemma digits_val_str_nat: "digits_val (str_nat n) = n"
proof (induction n rule: str_nat.induct)
  case (1 n)
  show ?case
  proof (cases "n < 10")
    case True
    then show ?thesis
      by (simp add: str_nat.simps [of n] digits_val_def of_char_digit_chr)
  next
    case False
    with "1.IH" show ?thesis
      by (simp add: str_nat.simps [of n] digits_val_snoc of_char_digit_chr)
  qed
qed

lemma hd_str_nat_zero: "hd (str_nat n) = CHR ''0'' \<longleftrightarrow> n = 0"
proof (induction n rule: str_nat.induct)
  case (1 n)
  show ?case
  proof (cases "n < 10")
    case True
    then have eq: "(of_char (digit_chr n) :: nat) = 48 + n"
      by (rule of_char_digit_chr)
    have "digit_chr n = CHR ''0'' \<longleftrightarrow> n = 0"
    proof
      assume "digit_chr n = CHR ''0''"
      then have "(of_char (digit_chr n) :: nat) = 48" by simp
      with eq show "n = 0" by simp
    next
      assume "n = 0"
      then show "digit_chr n = CHR ''0''" by (simp add: digit_chr_def)
    qed
    with True show ?thesis
      by (simp add: str_nat.simps [of n])
  next
    case False
    with "1.IH" show ?thesis
      by (simp add: str_nat.simps [of n] str_nat_nonempty)
  qed
qed

lemma str_nat_zero: "str_nat 0 = ''0''"
  by (simp add: str_nat.simps [of 0] digit_chr_def)

lemma takeWhile_str_nat:
  "int_delimited r \<Longrightarrow> takeWhile is_digit (str_nat n @ r) = str_nat n"
  by (cases r) (auto simp: int_delimited_def takeWhile_append str_nat_digits
      takeWhile_eq_all_conv [THEN iffD2])

lemma scan_nat_digits:
  assumes "int_delimited r"
  shows "(case str_nat n @ r of [] \<Rightarrow> [] | c # _ \<Rightarrow>
            if c = CHR ''0'' then [c] else takeWhile is_digit (str_nat n @ r)) = str_nat n"
proof (cases "n = 0")
  case True
  then show ?thesis by (simp add: str_nat_zero)
next
  case False
  obtain c cs where s: "str_nat n = c # cs"
    using str_nat_nonempty [of n] by (cases "str_nat n") auto
  with False hd_str_nat_zero [of n] have "c \<noteq> CHR ''0''" by simp
  with s takeWhile_str_nat [OF assms, of n] show ?thesis by simp
qed

lemma scan_int_str_int:
  assumes "int_delimited r"
  shows "scan_int (str_int i @ r) = Some (i, r)"
proof -
  let ?n = "if i < 0 then nat (- i) else nat i"
  let ?t = "str_nat ?n @ r"
  obtain c cs where s: "str_nat ?n = c # cs"
    using str_nat_nonempty [of ?n] by (cases "str_nat ?n") auto
  have "is_digit c" using s str_nat_digits [of c ?n] by simp
  then have c: "c \<noteq> CHR ''-''" by (auto simp: is_digit_def)
  have neg: "(case str_int i @ r of [] \<Rightarrow> False | c # _ \<Rightarrow> c = CHR ''-'') = (i < 0)"
    using s c by (cases "i < 0") (simp_all add: str_int_def)
  have t: "(if i < 0 then tl (str_int i @ r) else str_int i @ r) = ?t"
    by (simp add: str_int_def)
  have ds: "(case ?t of [] \<Rightarrow> [] | c # _ \<Rightarrow>
               if c = CHR ''0'' then [c] else takeWhile is_digit ?t) = str_nat ?n"
    by (rule scan_nat_digits [OF assms])
  have delim: "(case r of [] \<Rightarrow> False
                | c # _ \<Rightarrow> c = CHR ''.'' \<or> c = CHR ''e'' \<or> c = CHR ''E'') = False"
    using assms by (auto simp: int_delimited_def split: list.splits)
  have "scan_int (str_int i @ r) =
      Some (if i < 0 then - int (digits_val (str_nat ?n)) else int (digits_val (str_nat ?n)), r)"
    unfolding scan_int_def Let_def neg t ds
    using delim by (simp add: str_nat_nonempty)
  then show ?thesis
    by (simp add: digits_val_str_nat)
qed

lemma scan_once_int:
  assumes "int_delimited r"
  shows "scan_once (str_int i @ r) = Some (PyInt i, r)"
proof -
  obtain c cs where s: "str_int i = c # cs" and c: "c \<noteq> quote_chr"
  proof (cases "i < 0")
    case True
    then show ?thesis using that by (simp add: str_int_def quote_chr_def)
  next
    case False
    obtain c cs where s: "str_nat (nat i) = c # cs"
      using str_nat_nonempty [of "nat i"] by (cases "str_nat (nat i)") auto
    have "is_digit c" using s str_nat_digits [of c "nat i"] by simp
    then have "c \<noteq> quote_chr" by (auto simp: is_digit_def quote_chr_def)
    with s False show ?thesis using that by (simp add: str_int_def)
  qed
  have "scan_once (str_int i @ r) = map_option (\<lambda>(n, r'). (PyInt n, r')) (scan_int (str_int i @ r))"
    using s c by (simp add: scan_once_def)
  then show ?thesis by (simp add: scan_int_str_int [OF assms])
qed


declare parse_pairs.simps [simp del]

lemma scan_once_dumps_value:
  "int_delimited r \<Longrightarrow> scan_once (dumps_value v @ r) = Some (v, r)"
  by (cases v) (simp_all add: dumps_value_def scan_once_string scan_once_int)

lemma str_int_not_ws: "\<exists>c cs. str_int i = c # cs \<and> \<not> is_ws c"
proof -
  let ?n = "if i < 0 then nat (- i) else nat i"
  obtain c cs where s: "str_nat ?n = c # cs"
    using str_nat_nonempty [of ?n] by (cases "str_nat ?n") auto
  have "is_digit c" using s str_nat_digits [of c ?n] by simp
  then have "\<not> is_ws c" by (auto simp: is_digit_def is_ws_def)
  with s show ?thesis
    by (cases "i < 0") (simp_all add: str_int_def is_ws_def)
qed

lemma skip_ws_dumps_value: "skip_ws (dumps_value v @ r) = dumps_value v @ r"
proof (cases v)
  case (PyStr x)
  then show ?thesis
    by (simp add: dumps_value_def encode_basestring_ascii_def skip_ws_def is_ws_def quote_chr_def)
next
  case (PyInt i)
  with str_int_not_ws [of i] show ?thesis
    by (auto simp: dumps_value_def skip_ws_def)
qed

lemma join_items_quote:
  "\<exists>cs. join_items (map dumps_item (kv # d)) = quote_chr # cs"
  by (cases d) (simp_all add: dumps_item_def encode_basestring_ascii_def)

lemma parse_pairs_first:
  assumes "skip_ws r = c2 # r4" and "int_delimited r"
  shows "parse_pairs (tl (dumps_item kv) @ r) =
     (if c2 = CHR ''}'' then Some ([kv], r4)
      else if c2 \<noteq> CHR '','' then None
      else (case skip_ws r4 of [] \<Rightarrow> None
            | c3 # r5 \<Rightarrow> if c3 \<noteq> quote_chr then None
                else (case parse_pairs r5 of None \<Rightarrow> None
                      | Some (ps, r6) \<Rightarrow> Some (kv # ps, r6))))"
proof -
  obtain k v where kv: "kv = (k, v)" by (cases kv)
  have body: "tl (dumps_item (k, v)) @ r =
      concat (map escape_char k) @ quote_chr # (CHR '':'' # CHR '' '' # dumps_value v @ r)"
    by (simp add: dumps_item_def encode_basestring_ascii_def)
  have ws1: "skip_ws (CHR '':'' # CHR '' '' # dumps_value v @ r)
      = CHR '':'' # CHR '' '' # dumps_value v @ r"
    by (simp add: skip_ws_def is_ws_def)
  have ws2: "skip_ws (CHR '' '' # dumps_value v @ r) = dumps_value v @ r"
    using skip_ws_dumps_value [of v r] by (simp add: skip_ws_def is_ws_def)
  show ?thesis
    unfolding kv body
    by (subst parse_pairs.simps)
      (simp add: scanstring_escaped ws1 ws2 scan_once_dumps_value [OF assms(2)] assms(1))
qed

lemma int_delimited_brace: "int_delimited (CHR ''}'' # r)"
  by (simp add: int_delimited_def is_digit_def)

lemma int_delimited_comma: "int_delimited (CHR '','' # r)"
  by (simp add: int_delimited_def is_digit_def)

lemma parse_pairs_join_items:
  "parse_pairs (tl (join_items (map dumps_item (kv # d))) @ CHR ''}'' # rest) = Some (kv # d, rest)"
proof (induction d arbitrary: kv)
  case Nil
  have "skip_ws (CHR ''}'' # rest) = CHR ''}'' # rest"
    by (simp add: skip_ws_def is_ws_def)
  from parse_pairs_first [OF this int_delimited_brace, of kv] show ?case
    by simp
next
  case (Cons kv' d)
  obtain cs where cs: "join_items (map dumps_item (kv' # d)) = quote_chr # cs"
    using join_items_quote by blast
  let ?r = "CHR '','' # CHR '' '' # quote_chr # cs @ CHR ''}'' # rest"
  have ne: "dumps_item kv \<noteq> []"
    by (simp add: dumps_item_def encode_basestring_ascii_def)
  have "join_items (map dumps_item (kv # kv' # d))
      = dumps_item kv @ '', '' @ join_items (map dumps_item (kv' # d))"
    by simp
  then have split_text: "tl (join_items (map dumps_item (kv # kv' # d))) @ CHR ''}'' # rest
      = tl (dumps_item kv) @ ?r"
    using ne by (simp only: cs) simp
  have ws: "skip_ws ?r = CHR '','' # (CHR '' '' # quote_chr # cs @ CHR ''}'' # rest)"
    by (simp add: skip_ws_def is_ws_def)
  have ws': "skip_ws (CHR '' '' # quote_chr # cs @ CHR ''}'' # rest)
      = quote_chr # (cs @ CHR ''}'' # rest)"
    by (simp add: skip_ws_def is_ws_def quote_chr_def)
  have ih: "parse_pairs (cs @ CHR ''}'' # rest) = Some (kv' # d, rest)"
    using Cons.IH [of kv'] by (simp only: cs list.sel)
  show ?case
    unfolding split_text
    by (subst parse_pairs_first [OF ws int_delimited_comma]) (simp add: ws' ih)
qed

lemma update_fresh: "k \<notin> fst ` set d \<Longrightarrow> AList.update k v d = d @ [(k, v)]"
  by (induction d) auto

lemma foldl_update_distinct:
  "distinct (map fst (acc @ ps)) \<Longrightarrow>
   foldl (\<lambda>d kv. AList.update (fst kv) (snd kv) d) acc ps = acc @ ps"
proof (induction ps arbitrary: acc)
  case Nil
  then show ?case by simp
next
  case (Cons p ps)
  from Cons.prems have "fst p \<notin> fst ` set acc" by auto
  then have "AList.update (fst p) (snd p) acc = acc @ [p]"
    by (simp add: update_fresh)
  moreover from Cons.prems have "distinct (map fst ((acc @ [p]) @ ps))" by simp
  ultimately show ?case
    using Cons.IH [of "acc @ [p]"] by simp
qed

lemma dict_of_pairs_distinct: "distinct (map fst d) \<Longrightarrow> dict_of_pairs d = d"
  using foldl_update_distinct [of "[]" d] by (simp add: dict_of_pairs_def)


lemma json_roundtrip:
  assumes "distinct (map fst d)"
  shows "json_loads (json_dumps d) = Some d"
proof (cases d)
  case Nil
  then show ?thesis
    by (simp add: json_loads_def json_dumps_def JSONObject_def skip_ws_def is_ws_def quote_chr_def
        dict_of_pairs_def)
next
  case (Cons kv d')
  obtain cs where cs: "join_items (map dumps_item (kv # d')) = quote_chr # cs"
    using join_items_quote by blast
  have pp: "parse_pairs (cs @ ''}'') = Some (kv # d', [])"
    using parse_pairs_join_items [of kv d' "[]"] cs by simp
  have "json_dumps d = CHR ''{'' # quote_chr # cs @ ''}''"
    using cs Cons by (simp add: json_dumps_def)
  then show ?thesis
    using pp assms Cons
    by (simp add: json_loads_def JSONObject_def skip_ws_def is_ws_def quote_chr_def
        dict_of_pairs_distinct)
qed

section \<open>Lemmas: the two aggregation functions\<close>

lemma total_revenue_try_fault:
  "pool db \<noteq> Operational \<Longrightarrow> isl (total_revenue_try db P T)"
  by (cases "pool db") (simp_all add: total_revenue_try_def Let_def)

lemma monthly_revenue_try_fault:
  "pool db \<noteq> Operational \<Longrightarrow> isl (monthly_revenue_try db P mo yr T)"
  by (cases "pool db")
    (auto simp: monthly_revenue_try_def Let_def split: sum.splits)

lemma calculate_total_revenue_degraded:
  assumes "pool db \<noteq> Operational"
  shows "calculate_total_revenue db P T =
     revenue_summary P T (fst (mock_property_data P)) ''USD'' (snd (mock_property_data P))"
  using total_revenue_try_fault [OF assms, of P T]
  by (cases "total_revenue_try db P T") (simp_all add: calculate_total_revenue_def)

lemma calculate_total_revenue_operational:
  assumes "pool db = Operational"
  shows "calculate_total_revenue db P T =
     (case total_query db P T of
        Some row \<Rightarrow>
          revenue_summary P T (decimal_str (to_decimal (total_revenue row))) ''USD''
            (reservation_count row)
      | None \<Rightarrow> revenue_summary P T ''0.00'' ''USD'' 0)"
  using assms by (simp add: calculate_total_revenue_def total_revenue_try_def)

lemma calculate_monthly_revenue_degraded:
  assumes "pool db \<noteq> Operational"
  shows "calculate_monthly_revenue db P mo yr T = Decimal_0"
  using monthly_revenue_try_fault [OF assms, of P mo yr T]
  by (cases "monthly_revenue_try db P mo yr T") (simp_all add: calculate_monthly_revenue_def)

lemma calculate_total_revenue_keys:
  "map fst (calculate_total_revenue db P T) =
     [''property_id'', ''tenant_id'', ''total'', ''currency'', ''count'']"
proof (cases "pool db = Operational")
  case True
  then show ?thesis
    by (simp add: calculate_total_revenue_operational revenue_summary_def split: option.splits)
next
  case False
  then show ?thesis
    by (simp add: calculate_total_revenue_degraded revenue_summary_def)
qed

lemma json_dumps_nonempty: "json_dumps d \<noteq> []"
  by (simp add: json_dumps_def)

lemma calculate_total_revenue_roundtrip:
  "json_loads (json_dumps (calculate_total_revenue db P T)) = Some (calculate_total_revenue db P T)"
  by (rule json_roundtrip) (simp add: calculate_total_revenue_keys)

lemma joined_rows_set:
  "set (joined_rows db P T) =
     {(r, p). r \<in> set (reservations db) \<and> p \<in> set (properties db) \<and>
              r_property_id r = P \<and> r_tenant_id r = T \<and> p_id p = P \<and> p_tenant_id p = T}"
  by (auto simp: joined_rows_def)

lemma monthly_rows_set:
  "set (monthly_rows db P T lo hi) =
     {(r, p). (r, p) \<in> set (joined_rows db P T) \<and>
              lo \<le> local_check_in db r p \<and> local_check_in db r p < hi}"
  by (auto simp: monthly_rows_def)

lemma joined_rows_no_reservation:
  assumes "\<forall>r \<in> set (reservations db). r_property_id r \<noteq> P \<or> r_tenant_id r \<noteq> T"
  shows "joined_rows db P T = []"
proof -
  from assms have "set (joined_rows db P T) = {}"
    unfolding joined_rows_set by auto
  then show ?thesis by simp
qed

lemma compute_and_store_written:
  assumes "cache_write_ok w"
  shows "compute_and_store P T w =
     (Inr (calculate_total_revenue (data w) P T),
      w\<lparr>aggregations := aggregations w + 1,
        cache_entries := (cache_entries w)
          (cache_key P T \<mapsto> (json_dumps (calculate_total_revenue (data w) P T), clock w + 300))\<rparr>)"
  using assms by (simp add: compute_and_store_def redis_setex_def Let_def)

lemma compute_and_store_write_fault:
  assumes "\<not> cache_write_ok w"
  shows "compute_and_store P T w = (Inl RedisError, w\<lparr>aggregations := aggregations w + 1\<rparr>)"
  using assms by (simp add: compute_and_store_def redis_setex_def Let_def)

section \<open>Lemmas: the sum of a query\<close>

lemma numeric_value_add: "numeric_value (numeric_add a b) = numeric_value a + numeric_value b"
proof -
  let ?s = "max (n_scale a) (n_scale b)"
  have a: "(10::rat) ^ ?s = 10 ^ (?s - n_scale a) * 10 ^ n_scale a"
    by (simp add: power_add [symmetric])
  have b: "(10::rat) ^ ?s = 10 ^ (?s - n_scale b) * 10 ^ n_scale b"
    by (simp add: power_add [symmetric])
  have "of_int (n_unscaled a) * 10 ^ (?s - n_scale a) / (10::rat) ^ ?s
      = of_int (n_unscaled a) / 10 ^ n_scale a"
    by (subst a) simp
  moreover have "of_int (n_unscaled b) * 10 ^ (?s - n_scale b) / (10::rat) ^ ?s
      = of_int (n_unscaled b) / 10 ^ n_scale b"
    by (subst b) simp
  ultimately show ?thesis
    by (simp add: numeric_value_def numeric_add_def Let_def add_divide_distrib)
qed

lemma foldl_numeric_add_value:
  "numeric_value (foldl numeric_add x xs) = numeric_value x + sum_list (map numeric_value xs)"
  by (induction xs arbitrary: x) (simp_all add: numeric_value_add)

lemma sql_sum_value:
  "(case sql_sum xs of None \<Rightarrow> 0 | Some t \<Rightarrow> numeric_value t) = sum_list (map numeric_value xs)"
  by (cases xs) (simp_all add: foldl_numeric_add_value)

lemma decimal_value_to_decimal: "decimal_value (to_decimal n) = numeric_value n"
proof -
  have sign: "(if n_unscaled n < 0 then - 1 else 1) * rat_of_nat (nat \<bar>n_unscaled n\<bar>)
      = of_int (n_unscaled n)"
    by simp
  have scale: "(if 0 \<le> - int (n_scale n) then 10 ^ nat (- int (n_scale n))
        else 1 / 10 ^ nat (- (- int (n_scale n)))) = 1 / (10::rat) ^ n_scale n"
    by (cases "n_scale n = 0") simp_all
  have "decimal_value (to_decimal n) =
      ((if n_unscaled n < 0 then - 1 else 1) * rat_of_nat (nat \<bar>n_unscaled n\<bar>))
        * (if 0 \<le> - int (n_scale n) then 10 ^ nat (- int (n_scale n))
           else 1 / 10 ^ nat (- (- int (n_scale n))))"
    by (simp add: decimal_value_def to_decimal_def)
  also have "\<dots> = of_int (n_unscaled n) * (1 / 10 ^ n_scale n)"
    by (simp only: sign scale)
  finally show ?thesis
    by (simp add: numeric_value_def)
qed

lemma decimal_value_Decimal_0: "decimal_value Decimal_0 = 0"
  by (simp add: decimal_value_def Decimal_0_def)

lemma decimal_value_returned:
  "decimal_value
     (case row_total of
        None \<Rightarrow> Decimal_0
      | Some t \<Rightarrow> if decimal_bool (to_decimal t) then to_decimal t else Decimal_0)
   = (case row_total of None \<Rightarrow> 0 | Some t \<Rightarrow> numeric_value t)"
proof (cases row_total)
  case None
  then show ?thesis by (simp add: decimal_value_Decimal_0)
next
  case (Some t)
  show ?thesis
  proof (cases "decimal_bool (to_decimal t)")
    case True
    with Some show ?thesis by (simp add: decimal_value_to_decimal)
  next
    case False
    then have "n_unscaled t = 0"
      by (simp add: decimal_bool_def to_decimal_def)
    with Some False show ?thesis
      by (simp add: decimal_value_Decimal_0 numeric_value_def)
  qed
qed

lemma concat_map_if_filter:
  "concat (map (\<lambda>x. if Q x then [x] else []) xs) = filter Q xs"
  by (induction xs) simp_all

lemma comprehension_product:
  "[(r, p). r \<leftarrow> rs, p \<leftarrow> ps, A r p, B r] = filter (\<lambda>(r, p). A r p \<and> B r) (List.product rs ps)"
proof (induction rs)
  case Nil
  then show ?case by simp
next
  case (Cons r rs)
  have "concat (map (\<lambda>p. if A r p then if B r then [(r, p)] else [] else []) ps)
      = filter (\<lambda>(r, p). A r p \<and> B r) (map (Pair r) ps)"
    by (induction ps) simp_all
  with Cons show ?case by simp
qed

lemma joined_rows_product:
  "joined_rows db P T =
     filter (\<lambda>(r, p). r_property_id r = P \<and> r_tenant_id r = T \<and> p_id p = P \<and> p_tenant_id p = T)
       (List.product (reservations db) (properties db))"
proof -
  have "joined_rows db P T =
     filter (\<lambda>(r, p). (r_property_id r = p_id p \<and> r_tenant_id r = p_tenant_id p)
                \<and> (r_property_id r = P \<and> r_tenant_id r = T))
       (List.product (reservations db) (properties db))"
    unfolding joined_rows_def by (rule comprehension_product)
  also have "\<dots> = filter (\<lambda>(r, p). r_property_id r = P \<and> r_tenant_id r = T \<and> p_id p = P \<and> p_tenant_id p = T)
       (List.product (reservations db) (properties db))"
    by (rule filter_cong) auto
  finally show ?thesis .
qed

lemma comprehension_filter:
  "[(r, p). (r, p) \<leftarrow> xs, Q r p] = filter (\<lambda>(r, p). Q r p) xs"
  by (induction xs) auto

lemma monthly_rows_product:
  "monthly_rows db P T lo hi =
     filter (\<lambda>(r, p). r_property_id r = P \<and> r_tenant_id r = T \<and> p_id p = P \<and> p_tenant_id p = T \<and>
                lo \<le> check_in_date r + zone_offset db (p_timezone p) (check_in_date r) \<and>
                check_in_date r + zone_offset db (p_timezone p) (check_in_date r) < hi)
       (List.product (reservations db) (properties db))"
proof -
  have "monthly_rows db P T lo hi =
      filter (\<lambda>(r, p). lo \<le> local_check_in db r p \<and> local_check_in db r p < hi) (joined_rows db P T)"
    unfolding monthly_rows_def by (rule comprehension_filter)
  also have "\<dots> =
      filter (\<lambda>x. (case x of (r, p) \<Rightarrow> r_property_id r = P \<and> r_tenant_id r = T \<and> p_id p = P \<and> p_tenant_id p = T) \<and>
                 (case x of (r, p) \<Rightarrow> lo \<le> local_check_in db r p \<and> local_check_in db r p < hi))
        (List.product (reservations db) (properties db))"
    unfolding joined_rows_product by (simp only: filter_filter)
  also have "\<dots> =
      filter (\<lambda>(r, p). r_property_id r = P \<and> r_tenant_id r = T \<and> p_id p = P \<and> p_tenant_id p = T \<and>
                lo \<le> check_in_date r + zone_offset db (p_timezone p) (check_in_date r) \<and>
                check_in_date r + zone_offset db (p_timezone p) (check_in_date r) < hi)
       (List.product (reservations db) (properties db))"
    by (rule filter_cong)
      (auto simp: local_check_in_def instant_at_zone_def timestamp_at_utc_def)
  finally show ?thesis .
qed

section \<open>Lemmas: the example data evaluated\<close>

lemmas example_defs =
  example_world_def example_db_def example_reservation_def example_reservation_late_def
  example_property_def example_zone_offset_def

lemmas query_defs =
  total_query_def monthly_query_def monthly_rows_def joined_rows_def local_check_in_def
  instant_at_zone_def timestamp_at_utc_def numeric_add_def to_decimal_def decimal_bool_def

lemmas calendar_defs =
  month_bounds_def datetime_ymd_def days_in_month_def is_leap_def midnight_def
  datetime_micros_def ymd2ord_def days_before_year_def days_before_month_def

lemmas decimal_str_defs = decimal_str_def str_nat.simps digit_chr_def Let_def

lemma example_total:
  "calculate_total_revenue example_db ''prop-002'' ''t-9'' =
     revenue_summary ''prop-002'' ''t-9'' ''5000.00'' ''USD'' 2"
  by (simp add: calculate_total_revenue_def total_revenue_try_def example_defs query_defs
      decimal_str_defs)

lemma example_month_bounds:
  "month_bounds 2024 2 = Inr (midnight 2024 2 1, midnight 2024 3 1)"
  "month_bounds 2024 1 = Inr (midnight 2024 1 1, midnight 2024 2 1)"
  by (simp_all add: month_bounds_def datetime_ymd_def days_in_month_def)

lemma example_local_check_in:
  "local_check_in example_db example_reservation example_property
     = datetime_micros (midnight 2024 2 1)"
  by (simp add: example_defs query_defs calendar_defs)

lemma example_rows:
  "joined_rows example_db ''prop-002'' ''t-9''
     = [(example_reservation, example_property), (example_reservation_late, example_property)]"
  "monthly_rows example_db ''prop-002'' ''t-9''
     (datetime_micros (midnight 2024 2 1)) (datetime_micros (midnight 2024 3 1))
     = [(example_reservation, example_property), (example_reservation_late, example_property)]"
  by (simp_all add: example_defs query_defs calendar_defs)

lemma example_monthly_total:
  "calculate_monthly_revenue example_db ''prop-002'' 2 2024 ''t-9''
     = \<lparr>d_sign = False, d_int = 500000, d_exp = - 2\<rparr>"
proof -
  have "pool example_db = Operational"
    by (simp add: example_db_def)
  then show ?thesis
    by (simp add: calculate_monthly_revenue_def monthly_revenue_try_def example_month_bounds
        monthly_query_def example_rows example_reservation_def example_reservation_late_def
        numeric_add_def to_decimal_def decimal_bool_def)
qed

section \<open>The cache key\<close>

text \<open>
  C1. For every property id \<open>P\<close> and tenant ids \<open>T\<close>, \<open>T1\<close>, \<open>T2\<close>, the cache key of
  \<^verbatim>\<open>get_revenue_summary\<close> is exactly \<open>revenue:\<close>, the tenant id, a colon and the
  property id, in that order. The call reads the cache at that key and nowhere else (its
  result is the same in two caches that agree at the key), a miss writes the computed
  summary at that key, and for \<open>T1 \<noteq> T2\<close> the keys of \<open>(P, T1)\<close> and \<open>(P, T2)\<close> are
  different strings: a call for \<open>T1\<close> leaves the entry that serves \<open>T2\<close> as it was.
\<close>

theorem cache_key_format_and_tenant_isolation:
  "cache_key P T = ''revenue:'' @ T @ '':'' @ P
   \<and> (cache_entries w' (''revenue:'' @ T @ '':'' @ P) = cache_entries w (''revenue:'' @ T @ '':'' @ P)
        \<longrightarrow> fst (get_revenue_summary P T (w\<lparr>cache_entries := cache_entries w'\<rparr>))
              = fst (get_revenue_summary P T w))
   \<and> (cache_read_ok w \<and> cache_write_ok w \<and> cache_entries w (''revenue:'' @ T @ '':'' @ P) = None
        \<longrightarrow> cache_entries (snd (get_revenue_summary P T w))
              = (cache_entries w)
                  (''revenue:'' @ T @ '':'' @ P \<mapsto>
                     (json_dumps (calculate_total_revenue (data w) P T), clock w + 300)))
   \<and> (T1 \<noteq> T2
        \<longrightarrow> ''revenue:'' @ T1 @ '':'' @ P \<noteq> ''revenue:'' @ T2 @ '':'' @ P
            \<and> cache_entries (snd (get_revenue_summary P T1 w)) (''revenue:'' @ T2 @ '':'' @ P)
                = cache_entries w (''revenue:'' @ T2 @ '':'' @ P))"
proof (intro conjI impI)
  show "cache_key P T = ''revenue:'' @ T @ '':'' @ P"
    by (simp add: cache_key_def)
next
  assume "cache_entries w' (''revenue:'' @ T @ '':'' @ P) = cache_entries w (''revenue:'' @ T @ '':'' @ P)"
  then show "fst (get_revenue_summary P T (w\<lparr>cache_entries := cache_entries w'\<rparr>))
      = fst (get_revenue_summary P T w)"
    by (simp add: get_revenue_summary_def redis_get_def compute_and_store_def redis_setex_def
        cache_key_def Let_def split: option.splits)
next
  assume "cache_read_ok w \<and> cache_write_ok w \<and> cache_entries w (''revenue:'' @ T @ '':'' @ P) = None"
  then show "cache_entries (snd (get_revenue_summary P T w))
      = (cache_entries w)
          (''revenue:'' @ T @ '':'' @ P \<mapsto>
             (json_dumps (calculate_total_revenue (data w) P T), clock w + 300))"
    by (simp add: get_revenue_summary_def redis_get_def compute_and_store_def redis_setex_def
        cache_key_def Let_def)
next
  assume "T1 \<noteq> T2"
  then show "''revenue:'' @ T1 @ '':'' @ P \<noteq> ''revenue:'' @ T2 @ '':'' @ P"
    by simp
next
  assume "T1 \<noteq> T2"
  then show "cache_entries (snd (get_revenue_summary P T1 w)) (''revenue:'' @ T2 @ '':'' @ P)
      = cache_entries w (''revenue:'' @ T2 @ '':'' @ P)"
    by (simp add: get_revenue_summary_def redis_get_def compute_and_store_def redis_setex_def
        cache_key_def Let_def split: option.splits)
qed

theorem cache_key_format_and_tenant_isolation_witness:
  "cache_read_ok example_world \<and> cache_write_ok example_world
   \<and> cache_entries example_world (''revenue:'' @ ''t-9'' @ '':'' @ ''prop-002'') = None
   \<and> ''t-9'' \<noteq> ''t-8''
   \<and> cache_key ''prop-002'' ''t-9'' = ''revenue:'' @ ''t-9'' @ '':'' @ ''prop-002''
   \<and> fst (get_revenue_summary ''prop-002'' ''t-9''
            (example_world\<lparr>cache_entries := cache_entries example_world\<rparr>))
       = fst (get_revenue_summary ''prop-002'' ''t-9'' example_world)
   \<and> cache_entries (snd (get_revenue_summary ''prop-002'' ''t-9'' example_world))
       = (cache_entries example_world)
           (''revenue:'' @ ''t-9'' @ '':'' @ ''prop-002'' \<mapsto>
              (json_dumps (calculate_total_revenue (data example_world) ''prop-002'' ''t-9''),
               clock example_world + 300))
   \<and> ''revenue:'' @ ''t-9'' @ '':'' @ ''prop-002'' \<noteq> ''revenue:'' @ ''t-8'' @ '':'' @ ''prop-002''
   \<and> cache_entries (snd (get_revenue_summary ''prop-002'' ''t-9'' example_world))
         (''revenue:'' @ ''t-8'' @ '':'' @ ''prop-002'')
       = cache_entries example_world (''revenue:'' @ ''t-8'' @ '':'' @ ''prop-002'')"
proof -
  have h1: "cache_read_ok example_world" and h2: "cache_write_ok example_world"
    by (simp_all add: example_world_def)
  have h3: "cache_entries example_world (''revenue:'' @ ''t-9'' @ '':'' @ ''prop-002'') = None"
    by (simp add: example_world_def)
  have h4: "''t-9'' \<noteq> ''t-8''" by simp
  have h5: "cache_entries example_world (''revenue:'' @ ''t-9'' @ '':'' @ ''prop-002'')
      = cache_entries example_world (''revenue:'' @ ''t-9'' @ '':'' @ ''prop-002'')" ..
  note k = cache_key_format_and_tenant_isolation
    [of "''prop-002''" "''t-9''" example_world example_world "''t-9''" "''t-8''"]
  note k1 = k [THEN conjunct1]
  note k2 = k [THEN conjunct2, THEN conjunct1, THEN mp, OF h5]
  note k3 = k [THEN conjunct2, THEN conjunct2, THEN conjunct1, THEN mp, OF conjI [OF h1 conjI [OF h2 h3]]]
  note k4 = k [THEN conjunct2, THEN conjunct2, THEN conjunct2, THEN mp, OF h4]
  show ?thesis
    by (intro conjI h1 h2 h3 h4 k1 k2 k3 k4 [THEN conjunct1] k4 [THEN conjunct2])
qed

section \<open>Failure of the data layer\<close>

text \<open>
  The claim C2 reads: when the session cannot be produced or the query raises, the
  computation fails with one error and never returns a synthesized result. The code
  returns a result: with \<^verbatim>\<open>get_session()\<close> raising and no reservation stored at all,
  the caller of \<^verbatim>\<open>get_revenue_summary\<close> receives the placeholder figures of
  \<open>prop-001\<close>; with \<^verbatim>\<open>execute\<close> raising, the monthly revenue is zero.
\<close>

theorem synthesized_result_on_data_fault_counterexample:
  "fst (get_revenue_summary ''prop-001'' ''tenant-a''
          (example_world\<lparr>data := example_db\<lparr>pool := GetSessionFails, reservations := []\<rparr>\<rparr>))
     = Inr (revenue_summary ''prop-001'' ''tenant-a'' ''1000.00'' ''USD'' 3)
   \<and> calculate_monthly_revenue (example_db\<lparr>pool := ExecuteFails\<rparr>) ''prop-002'' 2 2024 ''t-9''
     = Decimal_0"
  by (simp add: get_revenue_summary_def redis_get_def compute_and_store_def redis_setex_def
      calculate_total_revenue_def total_revenue_try_def mock_property_data_def mock_data_def
      calculate_monthly_revenue_def monthly_revenue_try_def example_month_bounds
      example_world_def example_db_def Let_def)

text \<open>
  C2, as amended. \<^verbatim>\<open>calculate_total_revenue\<close> raises nothing: when the database
  answers, it returns the summary computed from the stored rows (or the zero summary when
  no row matches); when the pool cannot be initialised, has no session factory, cannot
  open or close a session, or the query raises, it returns the placeholder summary of
  the property id, with the caller's ids and currency USD. In the latter cases
  \<^verbatim>\<open>calculate_monthly_revenue\<close> returns \<^verbatim>\<open>Decimal('0')\<close>.
\<close>

theorem data_fault_returns_placeholder:
  "calculate_total_revenue db P T =
     (if pool db = Operational then
        (case total_query db P T of
           Some row \<Rightarrow>
             revenue_summary P T (decimal_str (to_decimal (total_revenue row))) ''USD''
               (reservation_count row)
         | None \<Rightarrow> revenue_summary P T ''0.00'' ''USD'' 0)
      else revenue_summary P T (fst (mock_property_data P)) ''USD'' (snd (mock_property_data P)))
   \<and> (pool db \<noteq> Operational \<longrightarrow> calculate_monthly_revenue db P mo yr T = Decimal_0)"
  by (simp add: calculate_total_revenue_operational calculate_total_revenue_degraded
      calculate_monthly_revenue_degraded)

theorem data_fault_returns_placeholder_witness:
  "pool (example_db\<lparr>pool := NoSessionFactory\<rparr>) \<noteq> Operational
   \<and> calculate_total_revenue (example_db\<lparr>pool := NoSessionFactory\<rparr>) ''prop-003'' ''t-9''
       = revenue_summary ''prop-003'' ''t-9'' ''6100.50'' ''USD'' 2
   \<and> calculate_monthly_revenue (example_db\<lparr>pool := NoSessionFactory\<rparr>) ''prop-003'' 2 2024 ''t-9''
       = Decimal_0"
proof -
  have h: "pool (example_db\<lparr>pool := NoSessionFactory\<rparr>) \<noteq> Operational" by simp
  have m: "mock_property_data ''prop-003'' = (''6100.50'', 2)"
    by (simp add: mock_property_data_def mock_data_def)
  from data_fault_returns_placeholder
    [of "example_db\<lparr>pool := NoSessionFactory\<rparr>" "''prop-003''" "''t-9''" 2 2024] h m
  show ?thesis by simp
qed

section \<open>The monthly query\<close>

text \<open>
  The claim C3 reads: for every month query, the monthly revenue is the sum over exactly
  the reservations whose local check-in lies in \<open>[start, end)\<close>. When the query raises,
  the result is zero although two reservations of 4975.50 and 24.5 check in within the
  month.
\<close>

theorem monthly_sum_lost_on_query_fault_counterexample:
  "calculate_monthly_revenue (example_db\<lparr>pool := ExecuteFails\<rparr>) ''prop-002'' 2 2024 ''t-9''
     = Decimal_0
   \<and> sum_list (map (\<lambda>(r, p). numeric_value (total_amount r))
        (monthly_rows (example_db\<lparr>pool := ExecuteFails\<rparr>) ''prop-002'' ''t-9''
           (datetime_micros (midnight 2024 2 1)) (datetime_micros (midnight 2024 3 1))))
     = 5000
   \<and> decimal_value
         (calculate_monthly_revenue (example_db\<lparr>pool := ExecuteFails\<rparr>) ''prop-002'' 2 2024 ''t-9'')
     = 0"
proof -
  have "monthly_rows (example_db\<lparr>pool := ExecuteFails\<rparr>) ''prop-002'' ''t-9''
           (datetime_micros (midnight 2024 2 1)) (datetime_micros (midnight 2024 3 1))
     = [(example_reservation, example_property), (example_reservation_late, example_property)]"
    by (simp add: example_defs query_defs calendar_defs)
  moreover have "calculate_monthly_revenue (example_db\<lparr>pool := ExecuteFails\<rparr>)
      ''prop-002'' 2 2024 ''t-9'' = Decimal_0"
    by (simp add: calculate_monthly_revenue_def monthly_revenue_try_def example_month_bounds)
  ultimately show ?thesis
    by (simp add: example_reservation_def example_reservation_late_def numeric_value_def
        decimal_value_Decimal_0)
qed

text \<open>
  C3, as amended. With \<^verbatim>\<open>check_in_date\<close> stored as a naive timestamp that means UTC:
  for a month whose boundaries \<open>[start, end)\<close> can be built and a database that answers,
  the number \<^verbatim>\<open>calculate_monthly_revenue\<close> returns is the sum of the amounts over
  exactly the pairs of a reservation row and a property row of the requested property and
  tenant whose check-in, read as UTC and moved to the property's zone, is at or after
  \<open>start\<close> and before \<open>end\<close>, each pair counted once; in every other case it is zero.
  A reservation whose local check-in is the first instant of month \<open>M\<close> is a row of the
  query of \<open>M\<close> and not a row of the query of the month before.
\<close>

theorem monthly_revenue_half_open_local_month:
  "decimal_value (calculate_monthly_revenue db P mo yr T) =
      (case month_bounds yr mo of
         Inl e \<Rightarrow> 0
       | Inr (start_date, end_date) \<Rightarrow>
           if pool db = Operational then
             sum_list (map (\<lambda>(r, p). numeric_value (total_amount r))
               (monthly_rows db P T (datetime_micros start_date) (datetime_micros end_date)))
           else 0)
    \<and> monthly_rows db P T lo hi =
         filter (\<lambda>(r, p). r_property_id r = P \<and> r_tenant_id r = T \<and> p_id p = P \<and> p_tenant_id p = T \<and>
                    lo \<le> check_in_date r + zone_offset db (p_timezone p) (check_in_date r) \<and>
                    check_in_date r + zone_offset db (p_timezone p) (check_in_date r) < hi)
           (List.product (reservations db) (properties db))
    \<and> ((r, p) \<in> set (joined_rows db P T) \<and>
        month_bounds yr mo = Inr (start_date, end_date) \<and>
        local_check_in db r p = datetime_micros start_date \<and>
        month_bounds (if mo = 1 then yr - 1 else yr) (if mo = 1 then 12 else mo - 1) = Inr (ps, pe)
        \<longrightarrow> (r, p) \<in> set (monthly_rows db P T (datetime_micros start_date) (datetime_micros end_date))
          \<and> (r, p) \<notin> set (monthly_rows db P T (datetime_micros ps) (datetime_micros pe)))"
proof (intro conjI impI)
  show "decimal_value (calculate_monthly_revenue db P mo yr T) =
      (case month_bounds yr mo of
         Inl e \<Rightarrow> 0
       | Inr (start_date, end_date) \<Rightarrow>
           if pool db = Operational then
             sum_list (map (\<lambda>(r, p). numeric_value (total_amount r))
               (monthly_rows db P T (datetime_micros start_date) (datetime_micros end_date)))
           else 0)"
  proof (cases "month_bounds yr mo")
    case (Inl e)
    then show ?thesis
      by (simp add: calculate_monthly_revenue_def monthly_revenue_try_def decimal_value_Decimal_0)
  next
    case (Inr bounds)
    obtain s e where bounds: "bounds = (s, e)" by (cases bounds)
    show ?thesis
    proof (cases "pool db = Operational")
      case False
      with Inr bounds show ?thesis
        by (simp add: calculate_monthly_revenue_degraded decimal_value_Decimal_0)
    next
      case True
      let ?rows = "monthly_rows db P T (datetime_micros s) (datetime_micros e)"
      from True Inr bounds
      have "calculate_monthly_revenue db P mo yr T =
          (case sql_sum (map (\<lambda>(r, p). total_amount r) ?rows) of
             None \<Rightarrow> Decimal_0
           | Some t \<Rightarrow> if decimal_bool (to_decimal t) then to_decimal t else Decimal_0)"
        by (simp add: calculate_monthly_revenue_def monthly_revenue_try_def monthly_query_def)
      then have "decimal_value (calculate_monthly_revenue db P mo yr T) =
          sum_list (map numeric_value (map (\<lambda>(r, p). total_amount r) ?rows))"
        by (simp only: decimal_value_returned sql_sum_value)
      also have "\<dots> = sum_list (map (\<lambda>(r, p). numeric_value (total_amount r)) ?rows)"
        by (simp add: comp_def case_prod_unfold)
      finally show ?thesis
        using True Inr bounds by simp
    qed
  qed
next
  show "monthly_rows db P T lo hi =
         filter (\<lambda>(r, p). r_property_id r = P \<and> r_tenant_id r = T \<and> p_id p = P \<and> p_tenant_id p = T \<and>
                    lo \<le> check_in_date r + zone_offset db (p_timezone p) (check_in_date r) \<and>
                    check_in_date r + zone_offset db (p_timezone p) (check_in_date r) < hi)
           (List.product (reservations db) (properties db))"
    by (rule monthly_rows_product)
next
  assume a: "(r, p) \<in> set (joined_rows db P T) \<and>
        month_bounds yr mo = Inr (start_date, end_date) \<and>
        local_check_in db r p = datetime_micros start_date \<and>
        month_bounds (if mo = 1 then yr - 1 else yr) (if mo = 1 then 12 else mo - 1) = Inr (ps, pe)"
  then have b: "month_bounds yr mo = Inr (start_date, end_date)" by simp
  from a have "pe = start_date"
    using previous_month_end [OF b] by blast
  with a month_start_before_end [OF b]
  show "(r, p) \<in> set (monthly_rows db P T (datetime_micros start_date) (datetime_micros end_date))"
    and "(r, p) \<notin> set (monthly_rows db P T (datetime_micros ps) (datetime_micros pe))"
    by (simp_all add: monthly_rows_set)
qed

theorem monthly_revenue_half_open_local_month_witness:
  "pool example_db = Operational
   \<and> month_bounds 2024 2 = Inr (midnight 2024 2 1, midnight 2024 3 1)
   \<and> monthly_rows example_db ''prop-002'' ''t-9''
         (datetime_micros (midnight 2024 2 1)) (datetime_micros (midnight 2024 3 1))
       = [(example_reservation, example_property), (example_reservation_late, example_property)]
   \<and> total_amount example_reservation = \<lparr>n_unscaled = 497550, n_scale = 2\<rparr>
   \<and> total_amount example_reservation_late = \<lparr>n_unscaled = 245, n_scale = 1\<rparr>
   \<and> calculate_monthly_revenue example_db ''prop-002'' 2 2024 ''t-9''
       = \<lparr>d_sign = False, d_int = 500000, d_exp = - 2\<rparr>
   \<and> decimal_value (calculate_monthly_revenue example_db ''prop-002'' 2 2024 ''t-9'') = 5000
   \<and> (example_reservation, example_property) \<in> set (joined_rows example_db ''prop-002'' ''t-9'')
   \<and> local_check_in example_db example_reservation example_property
       = datetime_micros (midnight 2024 2 1)
   \<and> month_bounds 2024 1 = Inr (midnight 2024 1 1, midnight 2024 2 1)
   \<and> (example_reservation, example_property)
       \<in> set (monthly_rows example_db ''prop-002'' ''t-9''
                (datetime_micros (midnight 2024 2 1)) (datetime_micros (midnight 2024 3 1)))
   \<and> (example_reservation, example_property)
       \<notin> set (monthly_rows example_db ''prop-002'' ''t-9''
                (datetime_micros (midnight 2024 1 1)) (datetime_micros (midnight 2024 2 1)))"
proof -
  have h1: "pool example_db = Operational"
    by (simp add: example_db_def)
  have h2: "month_bounds 2024 2 = Inr (midnight 2024 2 1, midnight 2024 3 1)"
    by (rule example_month_bounds)
  have rows: "monthly_rows example_db ''prop-002'' ''t-9''
         (datetime_micros (midnight 2024 2 1)) (datetime_micros (midnight 2024 3 1))
       = [(example_reservation, example_property), (example_reservation_late, example_property)]"
    by (rule example_rows)
  have a1: "total_amount example_reservation = \<lparr>n_unscaled = 497550, n_scale = 2\<rparr>"
    and a2: "total_amount example_reservation_late = \<lparr>n_unscaled = 245, n_scale = 1\<rparr>"
    by (simp_all add: example_reservation_def example_reservation_late_def)
  have j: "(example_reservation, example_property) \<in> set (joined_rows example_db ''prop-002'' ''t-9'')"
    by (simp add: example_rows)
  have l: "local_check_in example_db example_reservation example_property
       = datetime_micros (midnight 2024 2 1)"
    by (rule example_local_check_in)
  have p: "month_bounds (if (2::int) = 1 then 2024 - 1 else 2024) (if (2::int) = 1 then 12 else 2 - 1)
       = Inr (midnight 2024 1 1, midnight 2024 2 1)"
    by (simp add: example_month_bounds)
  note w = monthly_revenue_half_open_local_month
    [of example_db "''prop-002''" 2 2024 "''t-9''" _ _ example_reservation example_property
      "midnight 2024 2 1" "midnight 2024 3 1" "midnight 2024 1 1" "midnight 2024 2 1"]
  from w [THEN conjunct1]
  have v: "decimal_value (calculate_monthly_revenue example_db ''prop-002'' 2 2024 ''t-9'') = 5000"
    by (simp add: h1 h2 rows a1 a2 numeric_value_def)
  from w [THEN conjunct2, THEN conjunct2, THEN mp, OF conjI [OF j conjI [OF h2 conjI [OF l p]]]]
  have b: "(example_reservation, example_property)
       \<in> set (monthly_rows example_db ''prop-002'' ''t-9''
                (datetime_micros (midnight 2024 2 1)) (datetime_micros (midnight 2024 3 1)))
     \<and> (example_reservation, example_property)
       \<notin> set (monthly_rows example_db ''prop-002'' ''t-9''
                (datetime_micros (midnight 2024 1 1)) (datetime_micros (midnight 2024 2 1)))" .
  show ?thesis
    by (intro conjI h1 h2 rows a1 a2 example_monthly_total v j l example_month_bounds
        b [THEN conjunct1] b [THEN conjunct2])
qed

section \<open>The boundaries of a month\<close>

text \<open>
  The claim C4 reads: for every month in 1..12 and every year, the end boundary is the
  first moment of the following month, December rolling the year forward. In December
  9999 the following January lies outside the years a \<^verbatim>\<open>datetime\<close> can hold, and in a
  year outside 1..9999 not even the start exists: the constructor raises.
\<close>

theorem december_9999_has_no_end_counterexample:
  "month_bounds 9999 12 = Inl ValueError
   \<and> month_bounds 9999 12 \<noteq> Inr (midnight 9999 12 1, midnight 10000 1 1)
   \<and> month_bounds 0 6 = Inl ValueError"
  by (simp add: month_bounds_def datetime_ymd_def days_in_month_def)

text \<open>
  C4, as amended. For every month in 1..12 and every year in 1..9999, December 9999
  excepted, the start is the first moment of the month and the end the first moment of
  the following month, which is January of the next year for December. For December
  9999 and for every year outside 1..9999 the constructor raises \<^verbatim>\<open>ValueError\<close>, no
  boundaries are computed, and \<^verbatim>\<open>calculate_monthly_revenue\<close> returns \<^verbatim>\<open>Decimal('0')\<close>.
\<close>

theorem month_bounds_in_datetime_range:
  assumes "1 \<le> mo" and "mo \<le> 12"
  shows "(1 \<le> yr \<and> yr \<le> 9999 \<and> \<not> (yr = 9999 \<and> mo = 12) \<longrightarrow>
            month_bounds yr mo =
              Inr (midnight yr mo 1,
                   if mo < 12 then midnight yr (mo + 1) 1 else midnight (yr + 1) 1 1))
    \<and> (\<not> (1 \<le> yr \<and> yr \<le> 9999) \<or> (yr = 9999 \<and> mo = 12) \<longrightarrow>
            month_bounds yr mo = Inl ValueError
            \<and> calculate_monthly_revenue db P mo yr T = Decimal_0)"
proof -
  have "calculate_monthly_revenue db P mo yr T = Decimal_0"
    if "month_bounds yr mo = Inl ValueError"
    using that
    by (simp add: calculate_monthly_revenue_def monthly_revenue_try_def split: sum.splits)
  with assms month_bounds_valid [of mo yr] month_bounds_invalid_year [of yr mo]
  show ?thesis by blast
qed

theorem month_bounds_in_datetime_range_witness:
  "(1::int) \<le> 12 \<and> (12::int) \<le> 12
   \<and> month_bounds 2024 12 = Inr (midnight 2024 12 1, midnight 2025 1 1)
   \<and> month_bounds 10000 12 = Inl ValueError
   \<and> calculate_monthly_revenue example_db ''prop-002'' 12 10000 ''t-9'' = Decimal_0"
proof -
  have h: "(1::int) \<le> 12" "(12::int) \<le> 12" by simp_all
  from month_bounds_in_datetime_range [OF h, of 2024]
  have a: "month_bounds 2024 12 = Inr (midnight 2024 12 1, midnight 2025 1 1)" by simp
  from month_bounds_in_datetime_range [OF h, of 10000 example_db "''prop-002''" "''t-9''"]
  have b: "month_bounds 10000 12 = Inl ValueError
      \<and> calculate_monthly_revenue example_db ''prop-002'' 12 10000 ''t-9'' = Decimal_0"
    by simp
  from h a b show ?thesis by simp
qed

section \<open>A property without reservations\<close>

text \<open>
  The claim C5 reads: for every pair without a matching reservation row the total revenue
  is the summary with total \<open>"0.00"\<close> and count 0. With no reservation stored at all and
  a pool without session factory, \<open>prop-001\<close> gets the placeholder figures
  \<open>"1000.00"\<close> and 3.
\<close>

theorem placeholder_without_reservations_counterexample:
  "reservations (example_db\<lparr>pool := NoSessionFactory, reservations := []\<rparr>) = []
   \<and> calculate_total_revenue (example_db\<lparr>pool := NoSessionFactory, reservations := []\<rparr>)
         ''prop-001'' ''tenant-a''
       = revenue_summary ''prop-001'' ''tenant-a'' ''1000.00'' ''USD'' 3
   \<and> calculate_total_revenue (example_db\<lparr>pool := NoSessionFactory, reservations := []\<rparr>)
         ''prop-001'' ''tenant-a''
       \<noteq> revenue_summary ''prop-001'' ''tenant-a'' ''0.00'' ''USD'' 0"
  by (simp add: calculate_total_revenue_def total_revenue_try_def mock_property_data_def
      mock_data_def revenue_summary_def)

text \<open>
  C5, as amended. For every property id and tenant id without a matching reservation row,
  \<^verbatim>\<open>calculate_total_revenue\<close> returns a summary and no error: the summary with total
  \<open>"0.00"\<close>, count 0 and currency \<open>"USD"\<close> when the database answers, and also when it
  does not and the property id is none of the five placeholder ids; the placeholder
  figures of the property id when the database does not answer and the id is one of the
  five.
\<close>

theorem no_reservations_zero_summary:
  assumes "\<forall>r \<in> set (reservations db). r_property_id r \<noteq> P \<or> r_tenant_id r \<noteq> T"
  shows "calculate_total_revenue db P T =
      (if pool db = Operational \<or> map_of mock_data P = None
       then revenue_summary P T ''0.00'' ''USD'' 0
       else revenue_summary P T (fst (mock_property_data P)) ''USD'' (snd (mock_property_data P)))"
proof (cases "pool db = Operational")
  case True
  with joined_rows_no_reservation [OF assms] show ?thesis
    by (simp add: calculate_total_revenue_operational total_query_def)
next
  case False
  then show ?thesis
    by (simp add: calculate_total_revenue_degraded mock_property_data_def)
qed

theorem no_reservations_zero_summary_witness:
  "pool example_db = Operational
   \<and> reservations example_db = [example_reservation, example_reservation_late]
   \<and> r_property_id example_reservation \<noteq> ''prop-404''
   \<and> r_property_id example_reservation_late \<noteq> ''prop-404''
   \<and> calculate_total_revenue example_db ''prop-404'' ''t-9''
       = revenue_summary ''prop-404'' ''t-9'' ''0.00'' ''USD'' 0
   \<and> calculate_total_revenue (example_db\<lparr>pool := GetSessionFails\<rparr>) ''prop-404'' ''t-9''
       = revenue_summary ''prop-404'' ''t-9'' ''0.00'' ''USD'' 0"
proof -
  have h1: "pool example_db = Operational"
    and r: "reservations example_db = [example_reservation, example_reservation_late]"
    by (simp_all add: example_db_def)
  have n1: "r_property_id example_reservation \<noteq> ''prop-404''"
    and n2: "r_property_id example_reservation_late \<noteq> ''prop-404''"
    by (simp_all add: example_reservation_def example_reservation_late_def)
  from r n1 n2
  have h2: "\<forall>r \<in> set (reservations example_db). r_property_id r \<noteq> ''prop-404'' \<or> r_tenant_id r \<noteq> ''t-9''"
    by simp
  then have h3: "\<forall>r \<in> set (reservations (example_db\<lparr>pool := GetSessionFails\<rparr>)).
      r_property_id r \<noteq> ''prop-404'' \<or> r_tenant_id r \<noteq> ''t-9''"
    by simp
  have m: "map_of mock_data ''prop-404'' = None"
    by (simp add: mock_data_def)
  from no_reservations_zero_summary [OF h2] h1
  have a: "calculate_total_revenue example_db ''prop-404'' ''t-9''
       = revenue_summary ''prop-404'' ''t-9'' ''0.00'' ''USD'' 0"
    by simp
  from no_reservations_zero_summary [OF h3] m
  have b: "calculate_total_revenue (example_db\<lparr>pool := GetSessionFails\<rparr>) ''prop-404'' ''t-9''
       = revenue_summary ''prop-404'' ''t-9'' ''0.00'' ''USD'' 0"
    by simp
  show ?thesis
    by (intro conjI h1 r n1 n2 a b)
qed

section \<open>Failure of the cache\<close>

text \<open>
  The claim C6 reads: cache faults never reach the caller, a failing read counts as a miss
  and a failing write as nothing. Neither call of the cache client is inside a
  \<^verbatim>\<open>try\<close>: a failing read ends the call with the cache's error and nothing is
  computed, a failing write ends it with the cache's error after the computation.
\<close>

theorem cache_fault_surfaces_counterexample:
  "get_revenue_summary ''prop-002'' ''t-9'' (example_world\<lparr>cache_read_ok := False\<rparr>)
     = (Inl RedisError, example_world\<lparr>cache_read_ok := False\<rparr>)
   \<and> fst (get_revenue_summary ''prop-002'' ''t-9'' (example_world\<lparr>cache_write_ok := False\<rparr>))
     = Inl RedisError"
  by (simp add: get_revenue_summary_def redis_get_def compute_and_store_def redis_setex_def
      example_world_def Let_def)

text \<open>
  C6, as amended. Cache faults reach the caller of \<^verbatim>\<open>get_revenue_summary\<close>: when the
  read fails, the call fails with the cache's error, the aggregation does not run and
  nothing changes; when the read misses and the write fails, the call fails with the
  cache's error after the aggregation has run once, and the computed summary is not
  returned.
\<close>

theorem cache_fault_reaches_caller:
  "(\<not> cache_read_ok w \<longrightarrow> get_revenue_summary P T w = (Inl RedisError, w))
   \<and> (cache_read_ok w \<and> \<not> cache_write_ok w
        \<and> (redis_get w (cache_key P T) = Inr None \<or> redis_get w (cache_key P T) = Inr (Some []))
      \<longrightarrow> get_revenue_summary P T w = (Inl RedisError, w\<lparr>aggregations := aggregations w + 1\<rparr>))"
  by (auto simp: get_revenue_summary_def redis_get_def compute_and_store_write_fault)

theorem cache_fault_reaches_caller_witness:
  "\<not> cache_read_ok (example_world\<lparr>cache_read_ok := False\<rparr>)
   \<and> get_revenue_summary ''prop-002'' ''t-9'' (example_world\<lparr>cache_read_ok := False\<rparr>)
       = (Inl RedisError, example_world\<lparr>cache_read_ok := False\<rparr>)
   \<and> cache_read_ok (example_world\<lparr>cache_write_ok := False\<rparr>)
   \<and> \<not> cache_write_ok (example_world\<lparr>cache_write_ok := False\<rparr>)
   \<and> redis_get (example_world\<lparr>cache_write_ok := False\<rparr>) (cache_key ''prop-002'' ''t-9'') = Inr None
   \<and> get_revenue_summary ''prop-002'' ''t-9'' (example_world\<lparr>cache_write_ok := False\<rparr>)
       = (Inl RedisError,
          example_world\<lparr>cache_write_ok := False,
            aggregations := aggregations (example_world\<lparr>cache_write_ok := False\<rparr>) + 1\<rparr>)"
proof -
  let ?r = "example_world\<lparr>cache_read_ok := False\<rparr>"
  let ?w = "example_world\<lparr>cache_write_ok := False\<rparr>"
  have h1: "\<not> cache_read_ok ?r" by simp
  have h2: "cache_read_ok ?w" "\<not> cache_write_ok ?w"
    by (simp_all add: example_world_def)
  have h3: "redis_get ?w (cache_key ''prop-002'' ''t-9'') = Inr None"
    by (simp add: redis_get_def example_world_def)
  from cache_fault_reaches_caller [of ?r "''prop-002''" "''t-9''"] h1
  have a: "get_revenue_summary ''prop-002'' ''t-9'' ?r = (Inl RedisError, ?r)"
    by (rule conjunct1 [THEN mp])
  from cache_fault_reaches_caller [of ?w "''prop-002''" "''t-9''"] h2 h3
  have b: "get_revenue_summary ''prop-002'' ''t-9'' ?w
      = (Inl RedisError, ?w\<lparr>aggregations := aggregations ?w + 1\<rparr>)"
    by simp
  show ?thesis
    by (intro conjI h1 a h2 h3 b)
qed

section \<open>Two calls within the lifetime of an entry\<close>

text \<open>
  The claim C7 reads: for every pair, two calls within the 300 seconds an entry lives give
  the same result and the aggregation runs at most once. When the cache takes no write,
  nothing is stored by the first call: a second call ten seconds later misses again, and
  after it the aggregation has run twice.
\<close>

theorem second_aggregation_on_write_fault_counterexample:
  "aggregations (example_world\<lparr>cache_write_ok := False\<rparr>) = 0
   \<and> aggregations
        (snd (get_revenue_summary ''prop-002'' ''t-9''
           ((snd (get_revenue_summary ''prop-002'' ''t-9'' (example_world\<lparr>cache_write_ok := False\<rparr>)))
              \<lparr>clock := clock (example_world\<lparr>cache_write_ok := False\<rparr>) + 10\<rparr>)))
       = 2"
  by (simp add: get_revenue_summary_def redis_get_def compute_and_store_def redis_setex_def
      example_world_def Let_def)

text \<open>
  C7, as amended. With a cache that answers reads and writes, a second call of
  \<^verbatim>\<open>get_revenue_summary\<close> for the same property and tenant, made \<open>d < 300\<close> seconds
  after the first and before an entry that served the first call expires, finds a live,
  non-empty entry at the key, returns the result of the first call whatever the database
  holds by then, and leaves the state, and so the count of aggregations, as it found it:
  it is served from the cache. The first call runs the aggregation at most once.
\<close>

theorem second_call_within_ttl_served_from_cache:
  assumes "cache_read_ok w" and "cache_write_ok w"
    and "d < 300"
    and "\<forall>v e. cache_entries w (cache_key P T) = Some (v, e) \<and> clock w < e \<and> v \<noteq> []
           \<longrightarrow> clock w + d < e"
    and "get_revenue_summary P T w = (r1, w1)"
  shows "get_revenue_summary P T (w1\<lparr>clock := clock w1 + d, data := db'\<rparr>)
        = (r1, w1\<lparr>clock := clock w1 + d, data := db'\<rparr>)
    \<and> (\<exists>v. redis_get (w1\<lparr>clock := clock w1 + d, data := db'\<rparr>) (cache_key P T) = Inr (Some v)
           \<and> v \<noteq> []
           \<and> r1 = (case json_loads v of None \<Rightarrow> Inl JSONDecodeError | Some s \<Rightarrow> Inr s))
    \<and> aggregations w1 \<le> aggregations w + 1"
proof (cases "\<exists>v e. cache_entries w (cache_key P T) = Some (v, e) \<and> clock w < e \<and> v \<noteq> []")
  case True
  then obtain v e where hit: "cache_entries w (cache_key P T) = Some (v, e)" "clock w < e" "v \<noteq> []"
    by blast
  with assms(4) have live: "clock w + d < e" by blast
  from hit assms(1,5)
  have r1: "r1 = (case json_loads v of None \<Rightarrow> Inl JSONDecodeError | Some s \<Rightarrow> Inr s)"
    and w1: "w1 = w"
    by (auto simp: get_revenue_summary_def redis_get_def split: option.splits)
  have g: "redis_get (w1\<lparr>clock := clock w1 + d, data := db'\<rparr>) (cache_key P T) = Inr (Some v)"
    using hit live assms(1) by (simp add: w1 redis_get_def)
  have "get_revenue_summary P T (w1\<lparr>clock := clock w1 + d, data := db'\<rparr>)
        = (r1, w1\<lparr>clock := clock w1 + d, data := db'\<rparr>)"
    using hit(3) by (simp add: get_revenue_summary_def g r1 split: option.splits)
  with g hit(3) r1 w1 show ?thesis by simp
next
  case False
  then have miss: "redis_get w (cache_key P T) = Inr None \<or> redis_get w (cache_key P T) = Inr (Some [])"
    using assms(1) by (auto simp: redis_get_def split: option.splits)
  let ?res = "calculate_total_revenue (data w) P T"
  from miss assms(5) have "compute_and_store P T w = (r1, w1)"
    by (auto simp: get_revenue_summary_def)
  with compute_and_store_written [OF assms(2), of P T]
  have r1: "r1 = Inr ?res"
    and w1: "w1 = w\<lparr>aggregations := aggregations w + 1,
        cache_entries := (cache_entries w)(cache_key P T \<mapsto> (json_dumps ?res, clock w + 300))\<rparr>"
    by simp_all
  have g: "redis_get (w1\<lparr>clock := clock w1 + d, data := db'\<rparr>) (cache_key P T)
      = Inr (Some (json_dumps ?res))"
    using assms(1,3) by (simp add: w1 redis_get_def)
  have "get_revenue_summary P T (w1\<lparr>clock := clock w1 + d, data := db'\<rparr>)
        = (r1, w1\<lparr>clock := clock w1 + d, data := db'\<rparr>)"
    by (simp add: get_revenue_summary_def g r1 json_dumps_nonempty calculate_total_revenue_roundtrip)
  moreover have "aggregations w1 \<le> aggregations w + 1"
    by (simp add: w1)
  ultimately show ?thesis
    using g by (simp add: r1 json_dumps_nonempty calculate_total_revenue_roundtrip)
qed

theorem second_call_within_ttl_served_from_cache_witness:
  "cache_read_ok example_world \<and> cache_write_ok example_world \<and> (299::nat) < 300
   \<and> cache_entries example_world (cache_key ''prop-002'' ''t-9'') = None
   \<and> fst (get_revenue_summary ''prop-002'' ''t-9'' example_world)
       = Inr (revenue_summary ''prop-002'' ''t-9'' ''5000.00'' ''USD'' 2)
   \<and> get_revenue_summary ''prop-002'' ''t-9''
         ((snd (get_revenue_summary ''prop-002'' ''t-9'' example_world))
            \<lparr>clock := clock (snd (get_revenue_summary ''prop-002'' ''t-9'' example_world)) + 299,
             data := example_db\<lparr>reservations := []\<rparr>\<rparr>)
       = (fst (get_revenue_summary ''prop-002'' ''t-9'' example_world),
          (snd (get_revenue_summary ''prop-002'' ''t-9'' example_world))
            \<lparr>clock := clock (snd (get_revenue_summary ''prop-002'' ''t-9'' example_world)) + 299,
             data := example_db\<lparr>reservations := []\<rparr>\<rparr>)
   \<and> aggregations (snd (get_revenue_summary ''prop-002'' ''t-9'' example_world))
       \<le> aggregations example_world + 1"
proof -
  let ?g = "get_revenue_summary ''prop-002'' ''t-9'' example_world"
  have h1: "cache_read_ok example_world" and h2: "cache_write_ok example_world"
    by (simp_all add: example_world_def)
  have h3: "(299::nat) < 300" by simp
  have e: "cache_entries example_world (cache_key ''prop-002'' ''t-9'') = None"
    by (simp add: example_world_def)
  then have h4: "\<forall>v e. cache_entries example_world (cache_key ''prop-002'' ''t-9'') = Some (v, e)
          \<and> clock example_world < e \<and> v \<noteq> [] \<longrightarrow> clock example_world + 299 < e"
    by simp
  have h5: "?g = (fst ?g, snd ?g)" by simp
  have r: "fst ?g = Inr (revenue_summary ''prop-002'' ''t-9'' ''5000.00'' ''USD'' 2)"
    using example_total
    by (simp add: get_revenue_summary_def redis_get_def compute_and_store_def redis_setex_def
        example_world_def Let_def)
  note w = second_call_within_ttl_served_from_cache
    [OF h1 h2 h3 h4 h5, of "example_db\<lparr>reservations := []\<rparr>"]
  show ?thesis
    by (intro conjI h1 h2 h3 e r w [THEN conjunct1] w [THEN conjunct2, THEN conjunct2])
qed

section \<open>The cached text read back\<close>

text \<open>
  C8. For every summary (property id, tenant id, total, currency, count), reading back
  the JSON text written for it yields the same dictionary, field by field; the total
  comes back as the string that went in.
\<close>

theorem revenue_summary_json_roundtrip:
  "json_loads (json_dumps (revenue_summary property_id tenant_id total_str currency n))
     = Some (revenue_summary property_id tenant_id total_str currency n)
   \<and> map_option (\<lambda>d. map_of d ''total'')
         (json_loads (json_dumps (revenue_summary property_id tenant_id total_str currency n)))
     = Some (Some (PyStr total_str))"
proof -
  have "distinct (map fst (revenue_summary property_id tenant_id total_str currency n))"
    by (simp add: revenue_summary_def)
  then have "json_loads (json_dumps (revenue_summary property_id tenant_id total_str currency n))
     = Some (revenue_summary property_id tenant_id total_str currency n)"
    by (rule json_roundtrip)
  then show ?thesis
    by (simp add: revenue_summary_def)
qed

theorem revenue_summary_json_roundtrip_witness:
  "json_loads (json_dumps (revenue_summary ''prop-001'' ''tenant-a'' ''1000.00'' ''USD'' 3))
     = Some (revenue_summary ''prop-001'' ''tenant-a'' ''1000.00'' ''USD'' 3)
   \<and> map_option (\<lambda>d. map_of d ''total'')
         (json_loads (json_dumps (revenue_summary ''prop-001'' ''tenant-a'' ''1000.00'' ''USD'' 3)))
     = Some (Some (PyStr ''1000.00''))"
  by (rule revenue_summary_json_roundtrip)

section \<open>The placeholder figures\<close>

text \<open>
  C9. When the database does not answer, the results of \<^verbatim>\<open>calculate_total_revenue\<close>
  for one property id and two tenant ids agree in every field other than
  \<open>tenant_id\<close>, which echoes the tenant asked for: total and count come from the entry of
  the property id in a table of five entries, or are \<open>"0.00"\<close> and 0 when it has none,
  and the currency is \<open>"USD"\<close>.
\<close>

theorem degraded_mode_ignores_tenant:
  assumes "pool db \<noteq> Operational"
  shows "(\<forall>k. k \<noteq> ''tenant_id'' \<longrightarrow>
            map_of (calculate_total_revenue db P T1) k = map_of (calculate_total_revenue db P T2) k)
    \<and> map_of (calculate_total_revenue db P T1) ''tenant_id'' = Some (PyStr T1)
    \<and> map_of (calculate_total_revenue db P T2) ''tenant_id'' = Some (PyStr T2)
    \<and> map_of (calculate_total_revenue db P T1) ''total'' = Some (PyStr (fst (mock_property_data P)))
    \<and> map_of (calculate_total_revenue db P T1) ''count'' = Some (PyInt (snd (mock_property_data P)))
    \<and> map_of (calculate_total_revenue db P T1) ''currency'' = Some (PyStr ''USD'')
    \<and> mock_property_data P \<in> set (map snd mock_data) \<union> {(''0.00'', 0)}
    \<and> length mock_data = 5"
proof -
  have "mock_property_data P \<in> set (map snd mock_data) \<union> {(''0.00'', 0)}"
  proof (cases "map_of mock_data P")
    case None
    then show ?thesis by (simp add: mock_property_data_def)
  next
    case (Some entry)
    then have "(P, entry) \<in> set mock_data" by (rule map_of_SomeD)
    then have "snd (P, entry) \<in> snd ` set mock_data" by (rule imageI)
    with Some show ?thesis by (simp add: mock_property_data_def)
  qed
  moreover have "length mock_data = 5"
    by (simp add: mock_data_def)
  ultimately show ?thesis
    by (simp add: calculate_total_revenue_degraded [OF assms] revenue_summary_def)
qed

theorem degraded_mode_ignores_tenant_witness:
  "pool (example_db\<lparr>pool := InitializeFails\<rparr>) \<noteq> Operational
   \<and> ''total'' \<noteq> ''tenant_id''
   \<and> map_of (calculate_total_revenue (example_db\<lparr>pool := InitializeFails\<rparr>) ''prop-001'' ''tenant-a'') ''total''
       = map_of (calculate_total_revenue (example_db\<lparr>pool := InitializeFails\<rparr>) ''prop-001'' ''tenant-b'') ''total''
   \<and> map_of (calculate_total_revenue (example_db\<lparr>pool := InitializeFails\<rparr>) ''prop-001'' ''tenant-a'') ''total''
       = Some (PyStr (fst (mock_property_data ''prop-001'')))
   \<and> mock_property_data ''prop-001'' = (''1000.00'', 3)
   \<and> map_of (calculate_total_revenue (example_db\<lparr>pool := InitializeFails\<rparr>) ''prop-001'' ''tenant-b'') ''tenant_id''
       = Some (PyStr ''tenant-b'')"
proof -
  let ?db = "example_db\<lparr>pool := InitializeFails\<rparr>"
  have h: "pool ?db \<noteq> Operational" by simp
  have k: "''total'' \<noteq> ''tenant_id''" by simp
  have m: "mock_property_data ''prop-001'' = (''1000.00'', 3)"
    by (simp add: mock_property_data_def mock_data_def)
  note w = degraded_mode_ignores_tenant [OF h, of "''prop-001''" "''tenant-a''" "''tenant-b''"]
  have e1: "map_of (calculate_total_revenue ?db ''prop-001'' ''tenant-a'') ''total''
       = map_of (calculate_total_revenue ?db ''prop-001'' ''tenant-b'') ''total''"
    by (rule w [THEN conjunct1, rule_format, OF k])
  have e2: "map_of (calculate_total_revenue ?db ''prop-001'' ''tenant-a'') ''total''
       = Some (PyStr (fst (mock_property_data ''prop-001'')))"
    by (rule w [THEN conjunct2, THEN conjunct2, THEN conjunct2, THEN conjunct1])
  have e3: "map_of (calculate_total_revenue ?db ''prop-001'' ''tenant-b'') ''tenant_id''
       = Some (PyStr ''tenant-b'')"
    by (rule w [THEN conjunct2, THEN conjunct2, THEN conjunct1])
  show ?thesis
    by (intro conjI h k e1 e2 m e3)
qed

section \<open>The monthly revenue of a failing database\<close>

text \<open>
  C10. \<^verbatim>\<open>calculate_monthly_revenue\<close> raises nothing: when the pool cannot be
  initialised, a session cannot be opened or closed, or the query raises, the body of the
  \<^verbatim>\<open>try\<close> raises and the function returns \<^verbatim>\<open>Decimal('0')\<close>, the value it also
  returns for the same request on an answering database without reservations.
\<close>

theorem monthly_revenue_fault_is_zero:
  assumes "pool db \<noteq> Operational"
  shows "isl (monthly_revenue_try db P mo yr T)
    \<and> calculate_monthly_revenue db P mo yr T = Decimal_0
    \<and> calculate_monthly_revenue (db\<lparr>pool := Operational, reservations := []\<rparr>) P mo yr T = Decimal_0"
proof -
  have "calculate_monthly_revenue (db\<lparr>pool := Operational, reservations := []\<rparr>) P mo yr T = Decimal_0"
    by (simp add: calculate_monthly_revenue_def monthly_revenue_try_def monthly_query_def
        monthly_rows_def joined_rows_def split: sum.splits)
  with assms show ?thesis
    by (simp add: monthly_revenue_try_fault calculate_monthly_revenue_degraded)
qed

theorem monthly_revenue_fault_is_zero_witness:
  "pool (example_db\<lparr>pool := ExecuteFails\<rparr>) \<noteq> Operational
   \<and> isl (monthly_revenue_try (example_db\<lparr>pool := ExecuteFails\<rparr>) ''prop-002'' 2 2024 ''t-9'')
   \<and> calculate_monthly_revenue (example_db\<lparr>pool := ExecuteFails\<rparr>) ''prop-002'' 2 2024 ''t-9''
       = Decimal_0
   \<and> calculate_monthly_revenue
         (example_db\<lparr>pool := ExecuteFails, pool := Operational, reservations := []\<rparr>)
         ''prop-002'' 2 2024 ''t-9''
       = Decimal_0"
proof -
  have h: "pool (example_db\<lparr>pool := ExecuteFails\<rparr>) \<noteq> Operational" by simp
  from monthly_revenue_fault_is_zero [OF h, of "''prop-002''" 2 2024 "''t-9''"] h
  show ?thesis by simp
qed

end
